theory Spec2Isabelle
  imports Complex_Main
begin

section \<open>Python values and the operations the code applies to them\<close>

text \<open>
  The records handled by the platform are untyped nested mappings decoded from JSON.
  Python's \<open>int\<close> and \<open>float\<close> are both read as \<open>real\<close>: rounding, infinities and
  NaN of IEEE doubles are not modelled.
\<close>

datatype json =
    JNone
  | JBool bool
  | JNum real
  | JStr string
  | JList "json list"
  | JDict "(string \<times> json) list"

text \<open>The exceptions that the modelled code can raise.\<close>

datatype error =
    KeyError string
  | ValueError
  | TypeError
  | AttributeError
  | IndexError
  | RequestError
  | RetryError
  | BlobError
  | ConnectError
  | DatabaseError

text \<open>Sequencing of computations that may raise: the first exception wins.\<close>

fun bnd :: "error + 'a \<Rightarrow> ('a \<Rightarrow> error + 'b) \<Rightarrow> error + 'b" where
  "bnd (Inl e) f = Inl e"
| "bnd (Inr x) f = f x"

text \<open>\<open>d.get(k, default)\<close>: only a dict has the method.\<close>

fun py_get :: "json \<Rightarrow> string \<Rightarrow> json \<Rightarrow> error + json" where
  "py_get (JDict kvs) k dflt = Inr (case map_of kvs k of Some v \<Rightarrow> v | None \<Rightarrow> dflt)"
| "py_get _ k dflt = Inl AttributeError"

text \<open>\<open>d[k]\<close> with a string key.\<close>

fun py_getitem :: "json \<Rightarrow> string \<Rightarrow> error + json" where
  "py_getitem (JDict kvs) k = (case map_of kvs k of Some v \<Rightarrow> Inr v | None \<Rightarrow> Inl (KeyError k))"
| "py_getitem _ k = Inl TypeError"

text \<open>\<open>x[0]\<close>: the first element of a list, the first character of a string, the key \<open>0\<close> of a dict.\<close>

fun py_index0 :: "json \<Rightarrow> error + json" where
  "py_index0 (JList []) = Inl IndexError"
| "py_index0 (JList (x # xs)) = Inr x"
| "py_index0 (JStr []) = Inl IndexError"
| "py_index0 (JStr (c # cs)) = Inr (JStr [c])"
| "py_index0 (JDict kvs) = Inl (KeyError ''0'')"
| "py_index0 _ = Inl TypeError"

text \<open>Substring test, for \<open>k in s\<close> on a string \<open>s\<close>.\<close>

fun is_substring :: "string \<Rightarrow> string \<Rightarrow> bool" where
  "is_substring k [] = (k = [])"
| "is_substring k (c # cs) = (take (length k) (c # cs) = k \<or> is_substring k cs)"

text \<open>\<open>k in x\<close> for a string \<open>k\<close>.\<close>

fun py_contains :: "string \<Rightarrow> json \<Rightarrow> error + bool" where
  "py_contains k (JDict kvs) = Inr (k \<in> set (map fst kvs))"
| "py_contains k (JList xs) = Inr (JStr k \<in> set xs)"
| "py_contains k (JStr s) = Inr (is_substring k s)"
| "py_contains k _ = Inl TypeError"

text \<open>Truth value of an object in a condition.\<close>

fun py_truthy :: "json \<Rightarrow> bool" where
  "py_truthy JNone = False"
| "py_truthy (JBool b) = b"
| "py_truthy (JNum x) = (x \<noteq> 0)"
| "py_truthy (JStr s) = (s \<noteq> [])"
| "py_truthy (JList xs) = (xs \<noteq> [])"
| "py_truthy (JDict kvs) = (kvs \<noteq> [])"

text \<open>
  \<open>float(x)\<close>. The builtin's reading of a string is the parameter \<open>pf\<close>
  (\<open>None\<close> where the builtin raises \<open>ValueError\<close>).
\<close>

fun py_float :: "(string \<Rightarrow> real option) \<Rightarrow> json \<Rightarrow> error + real" where
  "py_float pf (JNum x) = Inr x"
| "py_float pf (JBool b) = Inr (if b then 1 else 0)"
| "py_float pf (JStr s) = (case pf s of Some x \<Rightarrow> Inr x | None \<Rightarrow> Inl ValueError)"
| "py_float pf _ = Inl TypeError"

text \<open>\<open>x < c\<close> and \<open>x > c\<close> against a numeric literal \<open>c\<close>.\<close>

fun py_lt :: "json \<Rightarrow> real \<Rightarrow> error + bool" where
  "py_lt (JNum x) c = Inr (x < c)"
| "py_lt (JBool b) c = Inr ((if b then 1 else 0) < c)"
| "py_lt _ c = Inl TypeError"

fun py_gt :: "json \<Rightarrow> real \<Rightarrow> error + bool" where
  "py_gt (JNum x) c = Inr (x > c)"
| "py_gt (JBool b) c = Inr ((if b then 1 else 0) > c)"
| "py_gt _ c = Inl TypeError"

text \<open>\<open>d[k] = v\<close> on a dict held as an association list: an existing key keeps its place.\<close>

fun dict_set :: "string \<Rightarrow> json \<Rightarrow> (string \<times> json) list \<Rightarrow> (string \<times> json) list" where
  "dict_set k v [] = [(k, v)]"
| "dict_set k v (p # ps) = (if fst p = k then (k, v) # ps else p # dict_set k v ps)"

text \<open>
  A parser used in the worked examples: it reads a non-empty string of ASCII digits as
  the number it denotes and rejects everything else. On digit strings, and on strings
  holding no digit, sign, point or letter of a float literal, it agrees with \<open>float\<close>.
\<close>

fun position :: "char \<Rightarrow> string \<Rightarrow> nat option" where
  "position c [] = None"
| "position c (x # xs) = (if c = x then Some 0 else map_option Suc (position c xs))"

definition digit_val :: "char \<Rightarrow> nat option" where
  "digit_val c = position c ''0123456789''"

fun digits_acc :: "nat \<Rightarrow> string \<Rightarrow> nat option" where
  "digits_acc acc [] = Some acc"
| "digits_acc acc (c # cs) =
     (case digit_val c of None \<Rightarrow> None | Some d \<Rightarrow> digits_acc (10 * acc + d) cs)"

definition digits_float :: "string \<Rightarrow> real option" where
  "digits_float s = (if s = [] then None else map_option real (digits_acc 0 s))"

section \<open>utils.py: the risk score\<close>

text \<open>
  \<open>calculate_risk_score\<close>: the body of the \<open>try\<close> block, then the handler, which turns
  \<open>ValueError\<close>, \<open>KeyError\<close> and \<open>TypeError\<close> into the score \<open>0.0\<close> and lets
  every other exception through.
\<close>

definition risk_score_body ::
  "(string \<Rightarrow> real option) \<Rightarrow> json \<Rightarrow> json \<Rightarrow> json \<Rightarrow> error + real" where
  "risk_score_body pf diameter_data miss_distance velocity =
     bnd (py_get diameter_data ''kilometers'' (JDict [])) (\<lambda>km.
     bnd (py_get km ''estimated_diameter_max'' (JNum 0)) (\<lambda>dj.
     bnd (py_float pf dj) (\<lambda>diameter_km.
     bnd (py_get miss_distance ''kilometers'' (JNum 0)) (\<lambda>mj.
     bnd (py_float pf mj) (\<lambda>miss_distance_km.
     bnd (py_get velocity ''kilometers_per_hour'' (JNum 0)) (\<lambda>vj.
     bnd (py_float pf vj) (\<lambda>velocity_kmh.
       let diameter_factor = min (diameter_km / 10) 1;
           distance_factor = max 0 (1 - miss_distance_km / 1000000);
           velocity_factor = min (velocity_kmh / 100000) 1;
           risk_score = diameter_factor * 0.4 + distance_factor * 0.4 + velocity_factor * 0.2
       in Inr (min risk_score 1))))))))"

fun risk_score_caught :: "error \<Rightarrow> bool" where
  "risk_score_caught ValueError = True"
| "risk_score_caught (KeyError k) = True"
| "risk_score_caught TypeError = True"
| "risk_score_caught _ = False"

definition calculate_risk_score ::
  "(string \<Rightarrow> real option) \<Rightarrow> json \<Rightarrow> json \<Rightarrow> json \<Rightarrow> error + real" where
  "calculate_risk_score pf diameter_data miss_distance velocity =
     (case risk_score_body pf diameter_data miss_distance velocity of
        Inr r \<Rightarrow> Inr r
      | Inl e \<Rightarrow> if risk_score_caught e then Inr 0 else Inl e)"



section \<open>utils.py: validation\<close>

text \<open>
  \<open>validate_asteroid_data\<close> returns its verdict together with the warning it logs.
  The loop over the required fields stops at the first one that is missing.
\<close>

datatype warning =
    MissingRequiredField string
  | InvalidDiameterStructure
  | InvalidCloseApproachStructure

fun is_dict :: "json \<Rightarrow> bool" where
  "is_dict (JDict kvs) = True"
| "is_dict _ = False"

fun is_list :: "json \<Rightarrow> bool" where
  "is_list (JList xs) = True"
| "is_list _ = False"

fun first_missing :: "string list \<Rightarrow> json \<Rightarrow> error + string option" where
  "first_missing [] asteroid = Inr None"
| "first_missing (field # fields) asteroid =
     bnd (py_contains field asteroid) (\<lambda>present.
       if \<not> present then Inr (Some field) else first_missing fields asteroid)"

definition required_fields :: "string list" where
  "required_fields = [''id'', ''name'', ''estimated_diameter'']"

definition validate_asteroid_data :: "json \<Rightarrow> error + (bool \<times> warning list)" where
  "validate_asteroid_data asteroid =
     bnd (first_missing required_fields asteroid) (\<lambda>missing.
       case missing of
         Some field \<Rightarrow> Inr (False, [MissingRequiredField field])
       | None \<Rightarrow>
           bnd (py_get asteroid ''estimated_diameter'' (JDict [])) (\<lambda>diameter.
             if \<not> is_dict diameter then Inr (False, [InvalidDiameterStructure])
             else
               bnd (py_get asteroid ''close_approach_data'' (JList [])) (\<lambda>close_approach.
                 if py_truthy close_approach \<and> \<not> is_list close_approach
                 then Inr (False, [InvalidCloseApproachStructure])
                 else Inr (True, []))))"

section \<open>utils.py: formatting, on a store of shared objects\<close>

text \<open>
  \<open>format_asteroid_data\<close> assigns into mappings that its argument and its result
  both reach, so it is modelled on an explicit store: a value is an immediate or a
  reference, an object is a dict or a list, and the store is the list of the objects
  allocated so far, an address being a position in it.
\<close>

datatype pval = PNone | PBool bool | PNum real | PStr string | PRef nat





definition get_or :: "(string \<times> pval) list \<Rightarrow> string \<Rightarrow> pval \<Rightarrow> pval" where
  "get_or kvs k dflt = (case map_of kvs k of Some v \<Rightarrow> v | None \<Rightarrow> dflt)"























section \<open>asteroid_processor.py: the collaborators\<close>

text \<open>
  What the processor obtains from outside the repository is a parameter: the builtin
  \<open>float\<close> on strings, the wall clock, the NASA feed, the blob container and the SQL
  database. The schema of the two tables is not part of the sources, so whether the
  database accepts an \<open>INSERT\<close> is the parameter \<open>db_accepts\<close>, given the table, the
  row and the rows that the transaction sees.
\<close>

datatype col = Val json | Dumps json | Stamp string

type_synonym row = "col list"

datatype table_name = RawAsteroidData | ProcessedAsteroidInsights

record env =
  parse_float :: "string \<Rightarrow> real option"
  iso_now :: string
  file_stamp :: string
  days_until :: "string \<Rightarrow> int option"
  feed :: "nat \<Rightarrow> nat \<Rightarrow> error + (string \<times> json list) list"
  blob_accepts :: bool
  db_connects :: bool
  db_accepts :: "table_name \<Rightarrow> row \<Rightarrow> row list \<Rightarrow> bool"
  function_url :: "string option"

text \<open>
  \<open>iso_now\<close> is \<open>datetime.now().isoformat()\<close> and stands for \<open>datetime.now()\<close> in a
  column; \<open>file_stamp\<close> is \<open>datetime.now().strftime("%Y%m%d_%H%M%S")\<close>;
  \<open>days_until s\<close> is \<open>(datetime.strptime(s, '%Y-%m-%d') - datetime.now()).days\<close>, and
  \<open>None\<close> where \<open>strptime\<close> raises \<open>ValueError\<close>. Successive readings of the clock
  within one call are not told apart. \<open>feed n days\<close> is what the \<open>n\<close>-th request for
  the last \<open>days\<close> days returns under \<open>near_earth_objects\<close>.
\<close>

section \<open>asteroid_processor.py: enrichment\<close>

text \<open>The text of a caught exception, \<open>str(e)\<close>; only its kind is kept.\<close>

fun error_text :: "error \<Rightarrow> string" where
  "error_text (KeyError k) = k"
| "error_text ValueError = ''could not convert string to float''"
| "error_text _ = ''error''"

definition orbital_period_step ::
  "(string \<Rightarrow> real option) \<Rightarrow> json \<Rightarrow> (string \<times> json) list \<Rightarrow> error + (string \<times> json) list" where
  "orbital_period_step pf orbital_data insights =
     bnd (py_contains ''orbital_period'' orbital_data) (\<lambda>present.
       if present then
         bnd (py_getitem orbital_data ''orbital_period'') (\<lambda>x.
         bnd (py_float pf x) (\<lambda>period.
           Inr (dict_set ''orbital_period_days'' (JNum period) insights)))
       else Inr insights)"

definition eccentricity_step ::
  "(string \<Rightarrow> real option) \<Rightarrow> json \<Rightarrow> (string \<times> json) list \<Rightarrow> error + (string \<times> json) list" where
  "eccentricity_step pf orbital_data insights =
     bnd (py_contains ''eccentricity'' orbital_data) (\<lambda>present.
       if present then
         bnd (py_getitem orbital_data ''eccentricity'') (\<lambda>x.
         bnd (py_float pf x) (\<lambda>ecc.
           if ecc < 0.1 then Inr (dict_set ''orbit_type'' (JStr ''Nearly Circular'') insights)
           else if ecc < 0.3 then Inr (dict_set ''orbit_type'' (JStr ''Low Eccentricity'') insights)
           else Inr (dict_set ''orbit_type'' (JStr ''High Eccentricity'') insights)))
       else Inr insights)"

definition inclination_step ::
  "(string \<Rightarrow> real option) \<Rightarrow> json \<Rightarrow> (string \<times> json) list \<Rightarrow> error + (string \<times> json) list" where
  "inclination_step pf orbital_data insights =
     bnd (py_contains ''inclination'' orbital_data) (\<lambda>present.
       if present then
         bnd (py_getitem orbital_data ''inclination'') (\<lambda>x.
         bnd (py_float pf x) (\<lambda>incl.
           if incl < 5 then Inr (dict_set ''inclination_type'' (JStr ''Low Inclination'') insights)
           else if incl < 20 then Inr (dict_set ''inclination_type'' (JStr ''Medium Inclination'') insights)
           else Inr (dict_set ''inclination_type'' (JStr ''High Inclination'') insights)))
       else Inr insights)"

text \<open>
  The handler of \<open>_calculate_orbital_insights\<close> catches \<open>ValueError\<close> and \<open>KeyError\<close>
  and keeps the entries made before the exception.
\<close>

definition orbital_handler :: "(string \<times> json) list \<Rightarrow> error \<Rightarrow> error + json" where
  "orbital_handler insights e =
     (case e of
        ValueError \<Rightarrow> Inr (JDict (dict_set ''error'' (JStr (error_text e)) insights))
      | KeyError k \<Rightarrow> Inr (JDict (dict_set ''error'' (JStr (error_text e)) insights))
      | _ \<Rightarrow> Inl e)"

definition calculate_orbital_insights :: "(string \<Rightarrow> real option) \<Rightarrow> json \<Rightarrow> error + json" where
  "calculate_orbital_insights pf orbital_data =
     (case orbital_period_step pf orbital_data [] of
        Inl e \<Rightarrow> orbital_handler [] e
      | Inr i1 \<Rightarrow>
          (case eccentricity_step pf orbital_data i1 of
             Inl e \<Rightarrow> orbital_handler i1 e
           | Inr i2 \<Rightarrow>
               (case inclination_step pf orbital_data i2 of
                  Inl e \<Rightarrow> orbital_handler i2 e
                | Inr i3 \<Rightarrow> Inr (JDict i3))))"

text \<open>The condition \<open>'close_approach_data' in asteroid and asteroid['close_approach_data']\<close>.\<close>

definition has_close_approach :: "json \<Rightarrow> error + bool" where
  "has_close_approach asteroid =
     bnd (py_contains ''close_approach_data'' asteroid) (\<lambda>present.
       if present then
         bnd (py_getitem asteroid ''close_approach_data'') (\<lambda>c. Inr (py_truthy c))
       else Inr False)"

text \<open>
  The hazard classification of \<open>_enrich_asteroid_data\<close>, applied to the score that
  \<open>calculate_risk_score\<close> has returned. The score is computed in the reals: where the
  binary floating point sums of the code round (as at diameter 10, miss distance 500000,
  velocity 50000, where the code's sum is the next double above 0.7), the score the code
  stores is not the model's, and the level it stores is the level of its own score.
\<close>

definition hazard_level :: "real \<Rightarrow> string" where
  "hazard_level risk_score =
     (if risk_score > 0.7 then ''HIGH''
      else if risk_score > 0.4 then ''MEDIUM''
      else ''LOW'')"

definition enrich_risk :: "env \<Rightarrow> json \<Rightarrow> (string \<times> json) list \<Rightarrow> error + (string \<times> json) list" where
  "enrich_risk ev asteroid enriched =
     bnd (has_close_approach asteroid) (\<lambda>c.
       if c then
         bnd (py_getitem asteroid ''close_approach_data'') (\<lambda>cad.
         bnd (py_index0 cad) (\<lambda>approach_data.
         bnd (py_getitem asteroid ''estimated_diameter'') (\<lambda>diameter.
         bnd (py_getitem approach_data ''miss_distance'') (\<lambda>miss.
         bnd (py_getitem approach_data ''relative_velocity'') (\<lambda>velocity.
         bnd (calculate_risk_score (parse_float ev) diameter miss velocity) (\<lambda>risk_score.
           Inr (dict_set ''hazard_level'' (JStr (hazard_level risk_score))
                 (dict_set ''risk_score'' (JNum risk_score) enriched))))))))
       else Inr enriched)"

definition enrich_orbital :: "env \<Rightarrow> json \<Rightarrow> (string \<times> json) list \<Rightarrow> error + (string \<times> json) list" where
  "enrich_orbital ev asteroid enriched =
     bnd (py_contains ''orbital_data'' asteroid) (\<lambda>present.
       if present then
         bnd (py_getitem asteroid ''orbital_data'') (\<lambda>od.
         bnd (calculate_orbital_insights (parse_float ev) od) (\<lambda>oi.
           Inr (dict_set ''orbital_insights'' oi enriched)))
       else Inr enriched)"

text \<open>
  \<open>_enrich_asteroid_data\<close>. \<open>asteroid.copy()\<close> is a shallow copy; the function only
  adds top-level entries to it. A list has \<open>copy\<close> but no string keys.
\<close>

definition enrich_asteroid_data :: "env \<Rightarrow> json \<Rightarrow> string \<Rightarrow> error + json" where
  "enrich_asteroid_data ev asteroid date =
     (case asteroid of
        JDict kvs \<Rightarrow>
          (let enriched = dict_set ''data_source'' (JStr ''NASA NEO API'')
                            (dict_set ''processed_date'' (JStr (iso_now ev)) kvs)
           in bnd (enrich_risk ev asteroid enriched) (\<lambda>e1.
              bnd (enrich_orbital ev asteroid e1) (\<lambda>e2. Inr (JDict e2))))
      | JList xs \<Rightarrow> Inl TypeError
      | _ \<Rightarrow> Inl AttributeError)"

section \<open>asteroid_processor.py: insights\<close>

definition size_step :: "json \<Rightarrow> (string \<times> json) list \<Rightarrow> error + (string \<times> json) list" where
  "size_step asteroid insights =
     bnd (py_get asteroid ''estimated_diameter'' (JDict [])) (\<lambda>ed.
     bnd (py_get ed ''kilometers'' (JDict [])) (\<lambda>km.
     bnd (py_get km ''estimated_diameter_max'' (JNum 0)) (\<lambda>diameter.
     bnd (py_lt diameter 0.1) (\<lambda>small.
       if small then Inr (dict_set ''size_category'' (JStr ''Small (< 100m)'') insights)
       else bnd (py_lt diameter 1) (\<lambda>medium.
         if medium then Inr (dict_set ''size_category'' (JStr ''Medium (100m - 1km)'') insights)
         else Inr (dict_set ''size_category'' (JStr ''Large (> 1km)'') insights))))))"

definition orbit_step ::
  "(string \<Rightarrow> real option) \<Rightarrow> json \<Rightarrow> (string \<times> json) list \<Rightarrow> error + (string \<times> json) list" where
  "orbit_step pf asteroid insights =
     bnd (py_get asteroid ''orbital_data'' (JDict [])) (\<lambda>orbital_data.
     bnd (eccentricity_step pf orbital_data insights) (\<lambda>i1.
       inclination_step pf orbital_data i1))"

definition first_approach :: "json \<Rightarrow> error + json" where
  "first_approach asteroid = bnd (py_getitem asteroid ''close_approach_data'') py_index0"

definition velocity_step :: "json \<Rightarrow> (string \<times> json) list \<Rightarrow> error + (string \<times> json) list" where
  "velocity_step asteroid insights =
     bnd (has_close_approach asteroid) (\<lambda>c.
       if c then
         bnd (first_approach asteroid) (\<lambda>approach.
         bnd (py_get approach ''relative_velocity'' (JDict [])) (\<lambda>rv.
         bnd (py_get rv ''kilometers_per_hour'' (JNum 0)) (\<lambda>velocity.
         bnd (py_lt velocity 20000) (\<lambda>slow.
           if slow then Inr (dict_set ''velocity_category'' (JStr ''Slow'') insights)
           else bnd (py_lt velocity 50000) (\<lambda>medium.
             if medium then Inr (dict_set ''velocity_category'' (JStr ''Medium'') insights)
             else Inr (dict_set ''velocity_category'' (JStr ''Fast'') insights))))))
       else Inr insights)"

definition distance_step :: "json \<Rightarrow> (string \<times> json) list \<Rightarrow> error + (string \<times> json) list" where
  "distance_step asteroid insights =
     bnd (has_close_approach asteroid) (\<lambda>c.
       if c then
         bnd (first_approach asteroid) (\<lambda>approach.
         bnd (py_get approach ''miss_distance'' (JDict [])) (\<lambda>md.
         bnd (py_get md ''kilometers'' (JNum 0)) (\<lambda>distance.
         bnd (py_lt distance 1000000) (\<lambda>very_close.
           if very_close then Inr (dict_set ''distance_category'' (JStr ''Very Close'') insights)
           else bnd (py_lt distance 5000000) (\<lambda>close.
             if close then Inr (dict_set ''distance_category'' (JStr ''Close'') insights)
             else bnd (py_lt distance 20000000) (\<lambda>moderate.
               if moderate then Inr (dict_set ''distance_category'' (JStr ''Moderate'') insights)
               else Inr (dict_set ''distance_category'' (JStr ''Far'') insights)))))))
       else Inr insights)"

text \<open>
  \<open>strptime\<close> takes a string; a date it cannot read gives the entry \<open>None\<close>.
\<close>

definition days_step :: "env \<Rightarrow> json \<Rightarrow> (string \<times> json) list \<Rightarrow> error + (string \<times> json) list" where
  "days_step ev asteroid insights =
     bnd (has_close_approach asteroid) (\<lambda>c.
       if c then
         bnd (first_approach asteroid) (\<lambda>approach.
         bnd (py_get approach ''close_approach_date'' JNone) (\<lambda>approach_date_str.
           if py_truthy approach_date_str then
             (case approach_date_str of
                JStr s \<Rightarrow>
                  (case days_until ev s of
                     Some d \<Rightarrow> Inr (dict_set ''days_to_approach'' (JNum (of_int d)) insights)
                   | None \<Rightarrow> Inr (dict_set ''days_to_approach'' JNone insights))
              | _ \<Rightarrow> Inl TypeError)
           else Inr insights))
       else Inr insights)"

text \<open>The number that a comparison with a float literal reads from an object.\<close>

fun py_num :: "json \<Rightarrow> error + real" where
  "py_num (JNum x) = Inr x"
| "py_num (JBool b) = Inr (if b then 1 else 0)"
| "py_num _ = Inl TypeError"

definition threat_level :: "real \<Rightarrow> string" where
  "threat_level risk_score =
     (if risk_score > 0.8 then ''CRITICAL''
      else if risk_score > 0.6 then ''HIGH''
      else if risk_score > 0.4 then ''MEDIUM''
      else ''LOW'')"

definition recommended_action :: "string \<Rightarrow> string" where
  "recommended_action level =
     (if level = ''CRITICAL'' then ''Immediate monitoring and analysis required''
      else if level = ''HIGH'' then ''Enhanced monitoring recommended''
      else if level = ''MEDIUM'' then ''Standard monitoring sufficient''
      else ''Routine observation'')"

text \<open>The high-priority flag, the threat level and the recommended action.\<close>

definition threat_step :: "json \<Rightarrow> (string \<times> json) list \<Rightarrow> error + (string \<times> json) list" where
  "threat_step asteroid insights =
     bnd (py_get asteroid ''risk_score'' (JNum 0)) (\<lambda>risk_score.
     bnd (py_gt risk_score 0.5) (\<lambda>high_priority.
     bnd (py_num risk_score) (\<lambda>rs.
       let level = threat_level rs
       in Inr (dict_set ''recommended_action'' (JStr (recommended_action level))
                (dict_set ''threat_level'' (JStr level)
                  (dict_set ''is_high_priority'' (JBool high_priority) insights))))))"

definition processing_metadata :: "env \<Rightarrow> json" where
  "processing_metadata ev =
     JDict [(''processed_at'', JStr (iso_now ev)),
            (''processor_version'', JStr ''1.0.0''),
            (''data_source'', JStr ''NASA NEO API'')]"

definition calculate_insights :: "env \<Rightarrow> json \<Rightarrow> error + json" where
  "calculate_insights ev asteroid =
     bnd (size_step asteroid []) (\<lambda>i1.
     bnd (orbit_step (parse_float ev) asteroid i1) (\<lambda>i2.
     bnd (velocity_step asteroid i2) (\<lambda>i3.
     bnd (distance_step asteroid i3) (\<lambda>i4.
     bnd (days_step ev asteroid i4) (\<lambda>i5.
     bnd (threat_step asteroid i5) (\<lambda>i6.
       Inr (JDict (dict_set ''processing_metadata'' (processing_metadata ev) i6))))))))"

section \<open>asteroid_processor.py: the rows and the two stores\<close>

text \<open>\<open>obj.get(k)\<close> for each key of a list, in order.\<close>

fun gets :: "json \<Rightarrow> string list \<Rightarrow> error + json list" where
  "gets obj [] = Inr []"
| "gets obj (k # ks) =
     bnd (py_get obj k JNone) (\<lambda>v. bnd (gets obj ks) (\<lambda>vs. Inr (v # vs)))"

definition orbit_columns :: "string list" where
  "orbit_columns =
     [''epoch_osculation'', ''eccentricity'', ''semi_major_axis'', ''inclination'',
      ''ascending_node_longitude'', ''orbital_period'', ''perihelion_distance'',
      ''perihelion_argument'', ''aphelion_distance'', ''perihelion_time'',
      ''mean_anomaly'', ''mean_motion'', ''equinox'', ''orbit_determination_date'',
      ''orbit_uncertainty'', ''minimum_orbit_intersection'',
      ''jupiter_tisserand_invariant'', ''earth_minimum_orbit_intersection_distance'',
      ''orbit_id'', ''object_designation'']"

text \<open>
  The tuple \<open>values\<close> of \<open>store_raw_data_sql\<close>, in the order of the columns of the
  \<open>INSERT\<close>; the first column is \<open>id\<close>.
\<close>

definition raw_values :: "env \<Rightarrow> json \<Rightarrow> error + row" where
  "raw_values ev asteroid =
     bnd (py_get asteroid ''close_approach_data'' JNone) (\<lambda>c.
     bnd (if py_truthy c
          then bnd (py_get asteroid ''close_approach_data'' (JList [JDict []])) py_index0
          else Inr (JDict [])) (\<lambda>close_approach_data.
     bnd (py_get asteroid ''orbital_data'' (JDict [])) (\<lambda>orbital_data.
     bnd (py_get asteroid ''estimated_diameter'' (JDict [])) (\<lambda>diameter.
     bnd (py_get diameter ''kilometers'' (JDict [])) (\<lambda>diameter_km.
     bnd (py_get close_approach_data ''relative_velocity'' (JDict [])) (\<lambda>velocity.
     bnd (py_get close_approach_data ''miss_distance'' (JDict [])) (\<lambda>distance.
     bnd (py_get orbital_data ''orbit'' (JDict [])) (\<lambda>orbital.
     bnd (gets asteroid [''id'', ''name'', ''nasa_jpl_url'', ''absolute_magnitude_h'']) (\<lambda>v1.
     bnd (gets diameter_km [''estimated_diameter_min'', ''estimated_diameter_max'']) (\<lambda>v2.
     bnd (gets asteroid [''is_potentially_hazardous_asteroid'', ''is_sentry_object'']) (\<lambda>v3.
     bnd (gets close_approach_data [''close_approach_date'', ''close_approach_full'']) (\<lambda>v4.
     bnd (gets orbital orbit_columns) (\<lambda>v5.
     bnd (gets close_approach_data [''epoch_osculation'']) (\<lambda>v6.
     bnd (gets velocity [''kilometers_per_second'', ''kilometers_per_hour'', ''miles_per_hour'']) (\<lambda>v7.
     bnd (gets distance [''astronomical'', ''lunar'', ''kilometers'']) (\<lambda>v8.
     bnd (gets close_approach_data [''orbiting_body'']) (\<lambda>v9.
       Inr (map Val (v1 @ v2 @ v3 @ v4 @ v5 @ v6 @ v7 @ v8 @ v9)
            @ [Dumps asteroid, Stamp (iso_now ev)]))))))))))))))))))"

text \<open>
  The tuple \<open>values\<close> of \<open>store_processed_insights_sql\<close>; the first column,
  \<open>raw_asteroid_id\<close>, is the \<open>id\<close> of the record.
\<close>

definition insight_values :: "env \<Rightarrow> json \<Rightarrow> error + row" where
  "insight_values ev asteroid =
     bnd (calculate_insights ev asteroid) (\<lambda>insights.
     bnd (gets asteroid [''id'', ''name'']) (\<lambda>v1.
     bnd (py_get asteroid ''risk_score'' (JNum 0)) (\<lambda>risk_score.
     bnd (py_get asteroid ''hazard_level'' (JStr ''LOW'')) (\<lambda>hazard.
     bnd (gets insights [''size_category'', ''orbit_type'', ''inclination_type'',
                         ''velocity_category'', ''distance_category'', ''days_to_approach'']) (\<lambda>v2.
     bnd (py_get insights ''is_high_priority'' (JBool False)) (\<lambda>high_priority.
     bnd (gets insights [''threat_level'', ''recommended_action'']) (\<lambda>v3.
     bnd (py_get insights ''orbital_insights'' (JDict [])) (\<lambda>orbital_insights.
     bnd (py_get insights ''size_insights'' (JDict [])) (\<lambda>size_insights.
     bnd (py_get insights ''velocity_insights'' (JDict [])) (\<lambda>velocity_insights.
     bnd (py_get insights ''distance_insights'' (JDict [])) (\<lambda>distance_insights.
     bnd (py_get insights ''processing_metadata'' (JDict [])) (\<lambda>metadata.
       Inr (map Val (v1 @ [risk_score, hazard] @ v2 @ [high_priority] @ v3)
            @ [Dumps orbital_insights, Dumps size_insights, Dumps velocity_insights,
               Dumps distance_insights, Dumps metadata, Stamp (iso_now ev)])))))))))))))"

text \<open>
  The database holds the two tables. A connection works in a transaction: \<open>execute\<close>
  changes what the transaction sees, \<open>commit\<close> stores it and \<open>rollback\<close> discards it.
  Both functions send a plain \<open>INSERT\<close>, which adds a row when the database accepts it
  and raises otherwise.
\<close>

record db =
  raw_asteroid_data :: "row list"
  processed_asteroid_insights :: "row list"

record connection =
  stored :: db
  txn :: db

fun table_rows :: "table_name \<Rightarrow> db \<Rightarrow> row list" where
  "table_rows RawAsteroidData d = raw_asteroid_data d"
| "table_rows ProcessedAsteroidInsights d = processed_asteroid_insights d"

fun add_row :: "table_name \<Rightarrow> row \<Rightarrow> db \<Rightarrow> db" where
  "add_row RawAsteroidData r d = d\<lparr>raw_asteroid_data := raw_asteroid_data d @ [r]\<rparr>"
| "add_row ProcessedAsteroidInsights r d =
     d\<lparr>processed_asteroid_insights := processed_asteroid_insights d @ [r]\<rparr>"

definition execute_insert :: "env \<Rightarrow> table_name \<Rightarrow> row \<Rightarrow> connection \<Rightarrow> error + connection" where
  "execute_insert ev t values c =
     (if db_accepts ev t values (table_rows t (txn c))
      then Inr (c\<lparr>txn := add_row t values (txn c)\<rparr>)
      else Inl DatabaseError)"

definition commit :: "connection \<Rightarrow> connection" where
  "commit c = c\<lparr>stored := txn c\<rparr>"

definition rollback :: "connection \<Rightarrow> connection" where
  "rollback c = c\<lparr>txn := stored c\<rparr>"

text \<open>
  The loop of \<open>store_raw_data_sql\<close>. It returns the exception that ended it, if any,
  and the connection as it is at that moment.
\<close>

fun raw_loop :: "env \<Rightarrow> json list \<Rightarrow> connection \<Rightarrow> error option \<times> connection" where
  "raw_loop ev [] c = (None, c)"
| "raw_loop ev (asteroid # rest) c =
     (case raw_values ev asteroid of
        Inl e \<Rightarrow> (Some e, c)
      | Inr values \<Rightarrow>
          (case execute_insert ev RawAsteroidData values c of
             Inl e \<Rightarrow> (Some e, c)
           | Inr c' \<Rightarrow> raw_loop ev rest c'))"

definition store_raw_data_sql :: "env \<Rightarrow> json list \<Rightarrow> db \<Rightarrow> (error + unit) \<times> db" where
  "store_raw_data_sql ev asteroid_data d =
     (if \<not> db_connects ev then (Inl ConnectError, d)
      else
        (case raw_loop ev asteroid_data \<lparr>stored = d, txn = d\<rparr> of
           (None, c) \<Rightarrow> (Inr (), stored (commit c))
         | (Some e, c) \<Rightarrow> (Inl e, stored (rollback c))))"

fun insights_loop :: "env \<Rightarrow> json list \<Rightarrow> connection \<Rightarrow> error option \<times> connection" where
  "insights_loop ev [] c = (None, c)"
| "insights_loop ev (asteroid # rest) c =
     (case insight_values ev asteroid of
        Inl e \<Rightarrow> (Some e, c)
      | Inr values \<Rightarrow>
          (case execute_insert ev ProcessedAsteroidInsights values c of
             Inl e \<Rightarrow> (Some e, c)
           | Inr c' \<Rightarrow> insights_loop ev rest c'))"

definition store_processed_insights_sql :: "env \<Rightarrow> json list \<Rightarrow> db \<Rightarrow> (error + unit) \<times> db" where
  "store_processed_insights_sql ev asteroid_data d =
     (if \<not> db_connects ev then (Inl ConnectError, d)
      else
        (case insights_loop ev asteroid_data \<lparr>stored = d, txn = d\<rparr> of
           (None, c) \<Rightarrow> (Inr (), stored (commit c))
         | (Some e, c) \<Rightarrow> (Inl e, stored (rollback c))))"

section \<open>asteroid_processor.py: the processing cycle\<close>

record world =
  database :: db
  blobs :: "(string \<times> json) list"

text \<open>\<open>upload_blob(json_data, overwrite=True)\<close> under the timestamped name.\<close>

definition store_raw_data_blob :: "env \<Rightarrow> json list \<Rightarrow> world \<Rightarrow> (error + unit) \<times> world" where
  "store_raw_data_blob ev asteroid_data w =
     (if blob_accepts ev
      then (Inr (),
            w\<lparr>blobs := dict_set (''asteroid_data_'' @ file_stamp ev @ ''.json'')
                         (JList asteroid_data) (blobs w)\<rparr>)
      else (Inl BlobError, w))"

text \<open>\<open>get_near_earth_objects\<close> of the client asks for seven days at most.\<close>

definition get_near_earth_objects :: "env \<Rightarrow> nat \<Rightarrow> nat \<Rightarrow> error + (string \<times> json list) list" where
  "get_near_earth_objects ev attempt days = feed ev attempt (if days > 7 then 7 else days)"

fun enrich_each :: "env \<Rightarrow> string \<Rightarrow> json list \<Rightarrow> error + json list" where
  "enrich_each ev date [] = Inr []"
| "enrich_each ev date (asteroid # asteroids) =
     bnd (enrich_asteroid_data ev asteroid date) (\<lambda>enriched.
     bnd (enrich_each ev date asteroids) (\<lambda>rest. Inr (enriched # rest)))"

fun enrich_dates :: "env \<Rightarrow> (string \<times> json list) list \<Rightarrow> error + json list" where
  "enrich_dates ev [] = Inr []"
| "enrich_dates ev ((date, asteroids) # neo_data) =
     bnd (enrich_each ev date asteroids) (\<lambda>xs.
     bnd (enrich_dates ev neo_data) (\<lambda>ys. Inr (xs @ ys)))"

definition fetch_attempt :: "env \<Rightarrow> nat \<Rightarrow> nat \<Rightarrow> error + json list" where
  "fetch_attempt ev attempt days =
     bnd (get_near_earth_objects ev attempt days) (enrich_dates ev)"

text \<open>
  \<open>fetch_asteroid_data\<close> is retried: three attempts, and \<open>RetryError\<close> when the third
  one raises as well.
\<close>

definition fetch_asteroid_data :: "env \<Rightarrow> nat \<Rightarrow> error + json list" where
  "fetch_asteroid_data ev days =
     (case fetch_attempt ev 0 days of
        Inr data \<Rightarrow> Inr data
      | Inl e0 \<Rightarrow>
          (case fetch_attempt ev 1 days of
             Inr data \<Rightarrow> Inr data
           | Inl e1 \<Rightarrow>
               (case fetch_attempt ev 2 days of
                  Inr data \<Rightarrow> Inr data
                | Inl e2 \<Rightarrow> Inl RetryError)))"

text \<open>
  \<open>process_data\<close>; \<open>mode_days\<close> is its choice of the number of days. Every
  exception is logged and raised again. The call of the Azure
  function, made when \<open>function_url\<close> is set, catches its own exceptions and touches
  neither the database nor the container, so it leaves the world as it is.
\<close>

definition mode_days :: "string \<Rightarrow> nat" where
  "mode_days mode =
     (if mode = ''manual-full'' then 30
      else if mode = ''manual-incremental'' then 1
      else 7)"

definition process_data :: "env \<Rightarrow> string \<Rightarrow> world \<Rightarrow> (error + unit) \<times> world" where
  "process_data ev mode w =
     (let days = mode_days mode
      in case fetch_asteroid_data ev days of
           Inl e \<Rightarrow> (Inl e, w)
         | Inr asteroid_data \<Rightarrow>
             if asteroid_data = [] then (Inr (), w)
             else
               (case store_raw_data_blob ev asteroid_data w of
                  (Inl e, w1) \<Rightarrow> (Inl e, w1)
                | (Inr u, w1) \<Rightarrow>
                    (case store_raw_data_sql ev asteroid_data (database w1) of
                       (Inl e, d2) \<Rightarrow> (Inl e, w1\<lparr>database := d2\<rparr>)
                     | (Inr u, d2) \<Rightarrow>
                         (case store_processed_insights_sql ev asteroid_data d2 of
                            (Inl e, d3) \<Rightarrow> (Inl e, w1\<lparr>database := d3\<rparr>)
                          | (Inr u, d3) \<Rightarrow> (Inr (), w1\<lparr>database := d3\<rparr>)))))"

text \<open>Reading a table: the rows whose first column is a given id.\<close>

definition rows_with_id :: "json \<Rightarrow> row list \<Rightarrow> row list" where
  "rows_with_id i rows = filter (\<lambda>r. r \<noteq> [] \<and> hd r = Val i) rows"

section \<open>Worked inputs\<close>

text \<open>
  A record with the given maximal diameter, eccentricity, inclination, velocity, miss
  distance and risk score, and the reading of one entry of its insights.
\<close>

definition sample_record :: "real \<Rightarrow> real \<Rightarrow> real \<Rightarrow> real \<Rightarrow> real \<Rightarrow> real \<Rightarrow> json" where
  "sample_record diameter ecc incl velocity distance risk =
     JDict [(''id'', JStr ''2000433''),
            (''name'', JStr ''433 Eros''),
            (''estimated_diameter'',
               JDict [(''kilometers'', JDict [(''estimated_diameter_max'', JNum diameter)])]),
            (''close_approach_data'',
               JList [JDict [(''relative_velocity'', JDict [(''kilometers_per_hour'', JNum velocity)]),
                             (''miss_distance'', JDict [(''kilometers'', JNum distance)])]]),
            (''orbital_data'', JDict [(''eccentricity'', JNum ecc), (''inclination'', JNum incl)]),
            (''risk_score'', JNum risk)]"

definition insight_of :: "env \<Rightarrow> json \<Rightarrow> string \<Rightarrow> error + json" where
  "insight_of ev asteroid k =
     bnd (calculate_insights ev asteroid) (\<lambda>insights. py_get insights k JNone)"

text \<open>The reading of one entry of the record that the enrichment returns.\<close>

definition enriched_field :: "env \<Rightarrow> json \<Rightarrow> string \<Rightarrow> error + json" where
  "enriched_field ev asteroid k =
     bnd (enrich_asteroid_data ev asteroid ''2024-01-15'') (\<lambda>enriched. py_get enriched k JNone)"

text \<open>
  Two schemas for the tables: one without any constraint, and one where the first
  column is a primary key (not null, and unique among the rows).
\<close>

definition no_constraints :: "table_name \<Rightarrow> row \<Rightarrow> row list \<Rightarrow> bool" where
  "no_constraints t r rows = True"

fun key_differs :: "col \<Rightarrow> row \<Rightarrow> bool" where
  "key_differs k [] = True"
| "key_differs k (k' # cs) = (k' \<noteq> k)"

fun id_primary_key :: "table_name \<Rightarrow> row \<Rightarrow> row list \<Rightarrow> bool" where
  "id_primary_key t [] rows = False"
| "id_primary_key t (k # cs) rows = (k \<noteq> Val JNone \<and> list_all (key_differs k) rows)"

text \<open>
  An environment for the examples: the digit parser, a clock reading \<open>stamp\<close>, a
  clock that reads no date (the examples carry none), a database that can be reached.
\<close>

definition sample_env ::
  "(nat \<Rightarrow> nat \<Rightarrow> error + (string \<times> json list) list) \<Rightarrow> bool
     \<Rightarrow> (table_name \<Rightarrow> row \<Rightarrow> row list \<Rightarrow> bool) \<Rightarrow> string \<Rightarrow> env" where
  "sample_env fd blob accepts stamp =
     \<lparr>parse_float = digits_float, iso_now = stamp, file_stamp = ''20240115_120000'',
      days_until = (\<lambda>s. None), feed = fd, blob_accepts = blob, db_connects = True,
      db_accepts = accepts, function_url = None\<rparr>"

definition empty_db :: db where
  "empty_db = \<lparr>raw_asteroid_data = [], processed_asteroid_insights = []\<rparr>"

definition empty_world :: world where
  "empty_world = \<lparr>database = empty_db, blobs = []\<rparr>"

text \<open>Three records of a feed: a complete one, one without \<open>id\<close>, one without \<open>estimated_diameter\<close>.\<close>

definition eros :: json where
  "eros =
     JDict [(''id'', JStr ''2000433''),
            (''name'', JStr ''433 Eros''),
            (''estimated_diameter'',
               JDict [(''kilometers'', JDict [(''estimated_diameter_min'', JNum 0.15),
                                              (''estimated_diameter_max'', JNum 0.34)])]),
            (''is_potentially_hazardous_asteroid'', JBool False)]"

definition nameless_id :: json where
  "nameless_id =
     JDict [(''name'', JStr ''(2024 AB)''),
            (''estimated_diameter'',
               JDict [(''kilometers'', JDict [(''estimated_diameter_min'', JNum 0.02),
                                              (''estimated_diameter_max'', JNum 0.05)])])]"

definition no_diameter :: json where
  "no_diameter =
     JDict [(''id'', JStr ''3542519''),
            (''name'', JStr ''(2010 PK9)''),
            (''close_approach_data'',
               JList [JDict [(''relative_velocity'', JDict [(''kilometers_per_hour'', JNum 25000)]),
                             (''miss_distance'', JDict [(''kilometers'', JNum 50000000)])]])]"

text \<open>The complete record with an approach whose numbers are strings, as the feed sends them.\<close>

definition eros_as_fed :: json where
  "eros_as_fed =
     JDict [(''id'', JStr ''2000433''),
            (''name'', JStr ''433 Eros''),
            (''estimated_diameter'',
               JDict [(''kilometers'', JDict [(''estimated_diameter_min'', JNum 0.15),
                                              (''estimated_diameter_max'', JNum 0.34)])]),
            (''close_approach_data'',
               JList [JDict [(''relative_velocity'', JDict [(''kilometers_per_hour'', JStr ''25000'')]),
                             (''miss_distance'', JDict [(''kilometers'', JStr ''50000000'')])]])]"

definition sample_feed :: "json list \<Rightarrow> nat \<Rightarrow> nat \<Rightarrow> error + (string \<times> json list) list" where
  "sample_feed batch attempt days = Inr [(''2024-01-15'', batch)]"

text \<open>
  Two records without approach: one as the feed sends it, one that carries a risk score
  and a hazard level of its own.
\<close>

definition without_approach :: json where
  "without_approach =
     JDict [(''id'', JStr ''54016476''),
            (''name'', JStr ''(2020 GE)''),
            (''estimated_diameter'',
               JDict [(''kilometers'', JDict [(''estimated_diameter_min'', JNum 0.02),
                                              (''estimated_diameter_max'', JNum 0.05)])]),
            (''close_approach_data'', JList []),
            (''orbital_data'', JDict [(''eccentricity'', JStr ''309'')])]"

definition with_own_score :: json where
  "with_own_score =
     JDict [(''id'', JStr ''54016476''),
            (''name'', JStr ''(2020 GE)''),
            (''estimated_diameter'',
               JDict [(''kilometers'', JDict [(''estimated_diameter_min'', JNum 0.02),
                                              (''estimated_diameter_max'', JNum 0.05)])]),
            (''close_approach_data'', JList []),
            (''risk_score'', JNum 0.9),
            (''hazard_level'', JStr ''HIGH'')]"

text \<open>
  The row of the insights table that a record of the feed gives, enrichment first, and
  the reading of some of its columns.
\<close>

definition derived_row :: "env \<Rightarrow> json \<Rightarrow> string \<Rightarrow> error + row" where
  "derived_row ev asteroid date =
     bnd (enrich_asteroid_data ev asteroid date) (insight_values ev)"

definition columns :: "nat list \<Rightarrow> error + row \<Rightarrow> error + col list" where
  "columns ns r = (case r of Inl e \<Rightarrow> Inl e | Inr row \<Rightarrow> Inr (map (\<lambda>n. row ! n) ns))"



section \<open>Sequencing and dict lemmas\<close>

lemma bnd_Inr_iff: "bnd m f = Inr y \<longleftrightarrow> (\<exists>x. m = Inr x \<and> f x = Inr y)"
  by (cases m) simp_all

lemma map_of_dict_set: "map_of (dict_set k v d) k' = (if k' = k then Some v else map_of d k')"
  by (induction d) auto

lemma keys_dict_set: "set (map fst (dict_set k v d)) = insert k (set (map fst d))"
  by (induction d) auto

section \<open>The risk score\<close>






text \<open>
  C2. With three empty mappings every default is \<open>0\<close>, the distance factor is
  \<open>1.0\<close>, and \<open>calculate_risk_score\<close> returns \<open>0.4\<close>, where the specification (and the
  repository's own test of invalid data) has \<open>0.0\<close>.
\<close>

theorem calculate_risk_score_empty_inputs:
  "calculate_risk_score pf (JDict []) (JDict []) (JDict []) = Inr (2 / 5)"
  by (simp add: calculate_risk_score_def risk_score_body_def)

text \<open>
  The other inputs of that sentence of the specification: a value that \<open>float\<close> rejects gives
  \<open>0.0\<close>, and a \<open>kilometers\<close> entry that is not a mapping raises \<open>AttributeError\<close>,
  which the handler does not catch.
\<close>

lemma calculate_risk_score_unparsable:
  "pf s = None \<Longrightarrow>
   calculate_risk_score pf
     (JDict [(''kilometers'', JDict [(''estimated_diameter_max'', JStr s)])]) md vd = Inr 0"
  by (simp add: calculate_risk_score_def risk_score_body_def)

lemma calculate_risk_score_raises:
  "calculate_risk_score pf (JDict [(''kilometers'', JNum 5)]) md vd = Inl AttributeError"
  by (simp add: calculate_risk_score_def risk_score_body_def)






lemma size_step_sample:
  "size_step (sample_record d e i v m r) ins =
     Inr (dict_set ''size_category''
            (JStr (if d < 0.1 then ''Small (< 100m)''
                   else if d < 1 then ''Medium (100m - 1km)'' else ''Large (> 1km)'')) ins)"
  by (simp add: size_step_def sample_record_def)

lemma orbit_step_sample:
  "orbit_step pf (sample_record d e i v m r) ins =
     Inr (dict_set ''inclination_type''
            (JStr (if i < 5 then ''Low Inclination''
                   else if i < 20 then ''Medium Inclination'' else ''High Inclination''))
           (dict_set ''orbit_type''
              (JStr (if e < 0.1 then ''Nearly Circular''
                     else if e < 0.3 then ''Low Eccentricity'' else ''High Eccentricity'')) ins))"
  by (simp add: orbit_step_def eccentricity_step_def inclination_step_def sample_record_def)

lemma has_close_approach_sample: "has_close_approach (sample_record d e i v m r) = Inr True"
  by (simp add: has_close_approach_def sample_record_def)

lemma velocity_step_sample:
  "velocity_step (sample_record d e i v m r) ins =
     Inr (dict_set ''velocity_category''
            (JStr (if v < 20000 then ''Slow'' else if v < 50000 then ''Medium'' else ''Fast'')) ins)"
  by (simp add: velocity_step_def has_close_approach_sample)
     (simp add: first_approach_def sample_record_def)

lemma distance_step_sample:
  "distance_step (sample_record d e i v m r) ins =
     Inr (dict_set ''distance_category''
            (JStr (if m < 1000000 then ''Very Close'' else if m < 5000000 then ''Close''
                   else if m < 20000000 then ''Moderate'' else ''Far'')) ins)"
  by (simp add: distance_step_def has_close_approach_sample)
     (simp add: first_approach_def sample_record_def)

lemma days_step_sample: "days_step ev (sample_record d e i v m r) ins = Inr ins"
  by (simp add: days_step_def has_close_approach_sample)
     (simp add: first_approach_def sample_record_def)

lemma threat_step_sample:
  "threat_step (sample_record d e i v m r) ins =
     Inr (dict_set ''recommended_action'' (JStr (recommended_action (threat_level r)))
           (dict_set ''threat_level'' (JStr (threat_level r))
             (dict_set ''is_high_priority'' (JBool (0.5 < r)) ins)))"
  by (simp add: threat_step_def sample_record_def Let_def)

lemma calculate_insights_sample:
  "calculate_insights ev (sample_record d e i v m r) =
     Inr (JDict
       (dict_set ''processing_metadata'' (processing_metadata ev)
       (dict_set ''recommended_action'' (JStr (recommended_action (threat_level r)))
       (dict_set ''threat_level'' (JStr (threat_level r))
       (dict_set ''is_high_priority'' (JBool (0.5 < r))
       (dict_set ''distance_category''
          (JStr (if m < 1000000 then ''Very Close'' else if m < 5000000 then ''Close''
                 else if m < 20000000 then ''Moderate'' else ''Far''))
       (dict_set ''velocity_category''
          (JStr (if v < 20000 then ''Slow'' else if v < 50000 then ''Medium'' else ''Fast''))
       (dict_set ''inclination_type''
          (JStr (if i < 5 then ''Low Inclination''
                 else if i < 20 then ''Medium Inclination'' else ''High Inclination''))
       (dict_set ''orbit_type''
          (JStr (if e < 0.1 then ''Nearly Circular''
                 else if e < 0.3 then ''Low Eccentricity'' else ''High Eccentricity''))
       (dict_set ''size_category''
          (JStr (if d < 0.1 then ''Small (< 100m)''
                 else if d < 1 then ''Medium (100m - 1km)'' else ''Large (> 1km)''))
          []))))))))))"
  by (simp only: calculate_insights_def size_step_sample orbit_step_sample velocity_step_sample
      distance_step_sample days_step_sample threat_step_sample bnd.simps)

lemma insight_of_sample:
  "insight_of ev (sample_record d e i v m r) ''size_category'' =
     Inr (JStr (if d < 0.1 then ''Small (< 100m)''
                else if d < 1 then ''Medium (100m - 1km)'' else ''Large (> 1km)''))"
  "insight_of ev (sample_record d e i v m r) ''orbit_type'' =
     Inr (JStr (if e < 0.1 then ''Nearly Circular''
                else if e < 0.3 then ''Low Eccentricity'' else ''High Eccentricity''))"
  "insight_of ev (sample_record d e i v m r) ''inclination_type'' =
     Inr (JStr (if i < 5 then ''Low Inclination''
                else if i < 20 then ''Medium Inclination'' else ''High Inclination''))"
  "insight_of ev (sample_record d e i v m r) ''velocity_category'' =
     Inr (JStr (if v < 20000 then ''Slow'' else if v < 50000 then ''Medium'' else ''Fast''))"
  "insight_of ev (sample_record d e i v m r) ''distance_category'' =
     Inr (JStr (if m < 1000000 then ''Very Close'' else if m < 5000000 then ''Close''
                else if m < 20000000 then ''Moderate'' else ''Far''))"
  "insight_of ev (sample_record d e i v m r) ''is_high_priority'' = Inr (JBool (0.5 < r))"
  "insight_of ev (sample_record d e i v m r) ''threat_level'' =
     Inr (JStr (if 0.8 < r then ''CRITICAL'' else if 0.6 < r then ''HIGH''
                else if 0.4 < r then ''MEDIUM'' else ''LOW''))"
  unfolding insight_of_def calculate_insights_sample bnd.simps py_get.simps map_of_dict_set
  by (simp_all add: threat_level_def)

lemma threat_level_strict:
  "threat_level r = ''CRITICAL'' \<longleftrightarrow> 0.8 < r"
  "threat_level r = ''HIGH'' \<longleftrightarrow> 0.6 < r \<and> r \<le> 0.8"
  "threat_level r = ''MEDIUM'' \<longleftrightarrow> 0.4 < r \<and> r \<le> 0.6"
  "threat_level r = ''LOW'' \<longleftrightarrow> r \<le> 0.4"
  by (auto simp add: threat_level_def)

lemma hazard_level_strict:
  "hazard_level r = ''HIGH'' \<longleftrightarrow> 0.7 < r"
  "hazard_level r = ''MEDIUM'' \<longleftrightarrow> 0.4 < r \<and> r \<le> 0.7"
  "hazard_level r = ''LOW'' \<longleftrightarrow> r \<le> 0.4"
  by (auto simp add: hazard_level_def)

lemma enrich_risk_hazard:
  assumes "has_close_approach asteroid = Inr True"
    and "enrich_risk ev asteroid enriched = Inr e'"
  shows "\<exists>r. map_of e' ''risk_score'' = Some (JNum r)
           \<and> map_of e' ''hazard_level'' = Some (JStr (hazard_level r))"
  using assms by (auto simp: enrich_risk_def bnd_Inr_iff map_of_dict_set)

lemma enrich_orbital_frame:
  "enrich_orbital ev asteroid e1 = Inr e2 \<Longrightarrow> k \<noteq> ''orbital_insights'' \<Longrightarrow>
   map_of e2 k = map_of e1 k"
  by (auto simp: enrich_orbital_def bnd_Inr_iff map_of_dict_set split: if_splits)

lemma enrich_hazard_of_score:
  assumes h: "has_close_approach asteroid = Inr True"
    and e: "enrich_asteroid_data ev asteroid date = Inr enriched"
  shows "\<exists>x. py_get enriched ''risk_score'' JNone = Inr (JNum x)
           \<and> py_get enriched ''hazard_level'' JNone
               = Inr (JStr (if 0.7 < x then ''HIGH'' else if 0.4 < x then ''MEDIUM'' else ''LOW''))"
proof -
  from e obtain kvs where a: "asteroid = JDict kvs"
    by (cases asteroid) (simp_all add: enrich_asteroid_data_def)
  from e a obtain e0 e1 e2 where
    r: "enrich_risk ev asteroid e0 = Inr e1" and
    o: "enrich_orbital ev asteroid e1 = Inr e2" and
    en: "enriched = JDict e2"
    by (auto simp: enrich_asteroid_data_def Let_def bnd_Inr_iff)
  from enrich_risk_hazard [OF h r] obtain x where
    x: "map_of e1 ''risk_score'' = Some (JNum x)"
       "map_of e1 ''hazard_level'' = Some (JStr (hazard_level x))"
    by blast
  have "map_of e2 ''risk_score'' = Some (JNum x)"
    "map_of e2 ''hazard_level'' = Some (JStr (hazard_level x))"
    using enrich_orbital_frame [OF o] x by simp_all
  then have "py_get enriched ''risk_score'' JNone = Inr (JNum x)"
    "py_get enriched ''hazard_level'' JNone = Inr (JStr (hazard_level x))"
    by (simp_all add: en)
  then show ?thesis
    unfolding hazard_level_def by blast
qed

lemmas enrich_defs = enriched_field_def enrich_asteroid_data_def enrich_risk_def
  enrich_orbital_def calculate_orbital_insights_def orbital_period_step_def
  eccentricity_step_def inclination_step_def orbital_handler_def has_close_approach_def
  calculate_risk_score_def risk_score_body_def hazard_level_def sample_record_def

lemma hazard_at_boundaries:
  "enriched_field ev (sample_record 5 0.15 10.5 100000 250000 0.3) ''risk_score'' = Inr (JNum 0.7)"
  "enriched_field ev (sample_record 5 0.15 10.5 100000 250000 0.3) ''hazard_level''
     = Inr (JStr ''MEDIUM'')"
  "enriched_field ev (sample_record 5.00025 0.15 10.5 100000 250000 0.3) ''risk_score''
     = Inr (JNum 0.70001)"
  "enriched_field ev (sample_record 5.00025 0.15 10.5 100000 250000 0.3) ''hazard_level''
     = Inr (JStr ''HIGH'')"
  "enriched_field ev (sample_record 5 0.15 10.5 50000 750000 0.3) ''risk_score'' = Inr (JNum 0.4)"
  "enriched_field ev (sample_record 5 0.15 10.5 50000 750000 0.3) ''hazard_level''
     = Inr (JStr ''LOW'')"
  "enriched_field ev (sample_record 5.00025 0.15 10.5 50000 750000 0.3) ''hazard_level''
     = Inr (JStr ''MEDIUM'')"
  by (simp_all add: enrich_defs)

lemma insight_ties:
  "insight_of ev (sample_record 0.1 e i v m r) ''size_category'' = Inr (JStr ''Medium (100m - 1km)'')"
  "insight_of ev (sample_record 0.099999 e i v m r) ''size_category'' = Inr (JStr ''Small (< 100m)'')"
  "insight_of ev (sample_record d 0.3 i v m r) ''orbit_type'' = Inr (JStr ''High Eccentricity'')"
  "insight_of ev (sample_record d 0.299999 i v m r) ''orbit_type'' = Inr (JStr ''Low Eccentricity'')"
  "insight_of ev (sample_record d e i v m 0.8) ''threat_level'' = Inr (JStr ''HIGH'')"
  "insight_of ev (sample_record d e i v m 0.80001) ''threat_level'' = Inr (JStr ''CRITICAL'')"
  "insight_of ev (sample_record d e i v m 0.6) ''threat_level'' = Inr (JStr ''MEDIUM'')"
  "insight_of ev (sample_record d e i v m 0.60001) ''threat_level'' = Inr (JStr ''HIGH'')"
  "insight_of ev (sample_record d e i v m 0.4) ''threat_level'' = Inr (JStr ''LOW'')"
  "insight_of ev (sample_record d e i v m 0.40001) ''threat_level'' = Inr (JStr ''MEDIUM'')"
  by (simp_all add: insight_of_sample)

text \<open>
  C5. Every classification compares strictly and a tie falls to the next bucket.
  \<^item> The enrichment stores, with the risk score it has computed, the hazard level HIGH
    when that score is above 0.7, MEDIUM when it is above 0.4 and not above 0.7, and LOW
    otherwise. A record whose score is exactly 0.7 (diameter 5 km, miss distance 250000
    km, velocity 100000 km/h) is enriched with MEDIUM, and one whose score is 0.70001
    with HIGH; a score of exactly 0.4 gives LOW and 0.40001 gives MEDIUM. On these inputs
    the binary floating point arithmetic of the code gives the same scores.
  \<^item> For every maximal diameter, eccentricity, inclination, velocity, miss distance and
    risk score of a record, \<open>_calculate_insights\<close> files each under the bucket that the
    strict comparisons give: a diameter of exactly 0.1 km is Medium and 0.099999 km is
    Small; an eccentricity of exactly 0.3 is High Eccentricity and 0.299999 is Low
    Eccentricity; the threat level is HIGH at exactly 0.8 and CRITICAL at 0.80001,
    MEDIUM at exactly 0.6 and HIGH at 0.60001, LOW at exactly 0.4 and MEDIUM at 0.40001.
\<close>

theorem classification_boundaries:
  "(has_close_approach asteroid = Inr True
      \<and> enrich_asteroid_data ev asteroid date = Inr enriched \<longrightarrow>
      (\<exists>x. py_get enriched ''risk_score'' JNone = Inr (JNum x)
           \<and> py_get enriched ''hazard_level'' JNone
               = Inr (JStr (if 0.7 < x then ''HIGH'' else if 0.4 < x then ''MEDIUM'' else ''LOW''))))
   \<and> enriched_field ev (sample_record 5 0.15 10.5 100000 250000 0.3) ''risk_score''
       = Inr (JNum 0.7)
   \<and> enriched_field ev (sample_record 5 0.15 10.5 100000 250000 0.3) ''hazard_level''
       = Inr (JStr ''MEDIUM'')
   \<and> enriched_field ev (sample_record 5.00025 0.15 10.5 100000 250000 0.3) ''risk_score''
       = Inr (JNum 0.70001)
   \<and> enriched_field ev (sample_record 5.00025 0.15 10.5 100000 250000 0.3) ''hazard_level''
       = Inr (JStr ''HIGH'')
   \<and> enriched_field ev (sample_record 5 0.15 10.5 50000 750000 0.3) ''risk_score''
       = Inr (JNum 0.4)
   \<and> enriched_field ev (sample_record 5 0.15 10.5 50000 750000 0.3) ''hazard_level''
       = Inr (JStr ''LOW'')
   \<and> enriched_field ev (sample_record 5.00025 0.15 10.5 50000 750000 0.3) ''hazard_level''
       = Inr (JStr ''MEDIUM'')
   \<and> insight_of ev (sample_record d e i v m r) ''size_category'' =
       Inr (JStr (if d < 0.1 then ''Small (< 100m)''
                  else if d < 1 then ''Medium (100m - 1km)'' else ''Large (> 1km)''))
   \<and> insight_of ev (sample_record d e i v m r) ''orbit_type'' =
       Inr (JStr (if e < 0.1 then ''Nearly Circular''
                  else if e < 0.3 then ''Low Eccentricity'' else ''High Eccentricity''))
   \<and> insight_of ev (sample_record d e i v m r) ''inclination_type'' =
       Inr (JStr (if i < 5 then ''Low Inclination''
                  else if i < 20 then ''Medium Inclination'' else ''High Inclination''))
   \<and> insight_of ev (sample_record d e i v m r) ''velocity_category'' =
       Inr (JStr (if v < 20000 then ''Slow'' else if v < 50000 then ''Medium'' else ''Fast''))
   \<and> insight_of ev (sample_record d e i v m r) ''distance_category'' =
       Inr (JStr (if m < 1000000 then ''Very Close'' else if m < 5000000 then ''Close''
                  else if m < 20000000 then ''Moderate'' else ''Far''))
   \<and> insight_of ev (sample_record d e i v m r) ''is_high_priority'' = Inr (JBool (0.5 < r))
   \<and> insight_of ev (sample_record d e i v m r) ''threat_level'' =
       Inr (JStr (if 0.8 < r then ''CRITICAL'' else if 0.6 < r then ''HIGH''
                  else if 0.4 < r then ''MEDIUM'' else ''LOW''))
   \<and> insight_of ev (sample_record 0.1 e i v m r) ''size_category''
       = Inr (JStr ''Medium (100m - 1km)'')
   \<and> insight_of ev (sample_record 0.099999 e i v m r) ''size_category''
       = Inr (JStr ''Small (< 100m)'')
   \<and> insight_of ev (sample_record d 0.3 i v m r) ''orbit_type'' = Inr (JStr ''High Eccentricity'')
   \<and> insight_of ev (sample_record d 0.299999 i v m r) ''orbit_type''
       = Inr (JStr ''Low Eccentricity'')
   \<and> insight_of ev (sample_record d e i v m 0.8) ''threat_level'' = Inr (JStr ''HIGH'')
   \<and> insight_of ev (sample_record d e i v m 0.80001) ''threat_level'' = Inr (JStr ''CRITICAL'')
   \<and> insight_of ev (sample_record d e i v m 0.6) ''threat_level'' = Inr (JStr ''MEDIUM'')
   \<and> insight_of ev (sample_record d e i v m 0.60001) ''threat_level'' = Inr (JStr ''HIGH'')
   \<and> insight_of ev (sample_record d e i v m 0.4) ''threat_level'' = Inr (JStr ''LOW'')
   \<and> insight_of ev (sample_record d e i v m 0.40001) ''threat_level'' = Inr (JStr ''MEDIUM'')"
proof (intro conjI impI)
  assume "has_close_approach asteroid = Inr True
            \<and> enrich_asteroid_data ev asteroid date = Inr enriched"
  then show "\<exists>x. py_get enriched ''risk_score'' JNone = Inr (JNum x)
           \<and> py_get enriched ''hazard_level'' JNone
               = Inr (JStr (if 0.7 < x then ''HIGH'' else if 0.4 < x then ''MEDIUM'' else ''LOW''))"
    using enrich_hazard_of_score [of asteroid ev date enriched] by blast
qed (rule hazard_at_boundaries insight_of_sample insight_ties)+

theorem classification_boundaries_witness:
  "has_close_approach (sample_record 5 0.15 10.5 100000 250000 0.3) = Inr True
   \<and> (\<exists>enriched.
         enrich_asteroid_data (sample_env (sample_feed []) True no_constraints ''2024-01-15T12:00:00'')
           (sample_record 5 0.15 10.5 100000 250000 0.3) ''2024-01-15'' = Inr enriched
         \<and> py_get enriched ''risk_score'' JNone = Inr (JNum 0.7)
         \<and> py_get enriched ''hazard_level'' JNone = Inr (JStr ''MEDIUM''))"
proof -
  let ?ev = "sample_env (sample_feed []) True no_constraints ''2024-01-15T12:00:00''"
  let ?a = "sample_record 5 0.15 10.5 100000 250000 0.3"
  have h: "has_close_approach ?a = Inr True"
    by (rule has_close_approach_sample)
  have "\<exists>enriched. enrich_asteroid_data ?ev ?a ''2024-01-15'' = Inr enriched
          \<and> py_get enriched ''risk_score'' JNone = Inr (JNum 0.7)"
    using hazard_at_boundaries(1) [of ?ev] by (auto simp: enriched_field_def bnd_Inr_iff)
  then obtain enriched where
    e: "enrich_asteroid_data ?ev ?a ''2024-01-15'' = Inr enriched" and
    s: "py_get enriched ''risk_score'' JNone = Inr (JNum 0.7)"
    by blast
  from classification_boundaries [where asteroid = ?a and ev = ?ev and date = "''2024-01-15''"
      and enriched = enriched, THEN conjunct1] h e
  obtain x where x: "py_get enriched ''risk_score'' JNone = Inr (JNum x)"
    "py_get enriched ''hazard_level'' JNone
       = Inr (JStr (if 0.7 < x then ''HIGH'' else if 0.4 < x then ''MEDIUM'' else ''LOW''))"
    by blast
  from x(1) s have "x = 0.7" by simp
  with x(2) have "py_get enriched ''hazard_level'' JNone = Inr (JStr ''MEDIUM'')" by simp
  with h e s show ?thesis by blast
qed

section \<open>The stores and their transactions\<close>

lemma execute_insert_Inr:
  "execute_insert ev t v c = Inr c' \<Longrightarrow> stored c' = stored c \<and> txn c' = add_row t v (txn c)"
  by (auto simp: execute_insert_def split: if_splits)

lemma raw_loop_stored: "raw_loop ev data c = (r, c') \<Longrightarrow> stored c' = stored c"
proof (induction data arbitrary: c)
  case Nil
  then show ?case by simp
next
  case (Cons a data)
  then show ?case
    by (auto split: sum.splits dest: execute_insert_Inr)
qed

lemma raw_loop_rows:
  "raw_loop ev data c = (r, c') \<Longrightarrow>
   \<exists>rows. raw_asteroid_data (txn c') = raw_asteroid_data (txn c) @ rows
          \<and> (r = None \<longrightarrow> length rows = length data)
          \<and> processed_asteroid_insights (txn c') = processed_asteroid_insights (txn c)"
proof (induction data arbitrary: c)
  case Nil
  then show ?case by simp
next
  case (Cons a data)
  show ?case
  proof (cases "raw_values ev a")
    case (Inl e)
    with Cons.prems show ?thesis by auto
  next
    case (Inr v)
    show ?thesis
    proof (cases "execute_insert ev RawAsteroidData v c")
      case (Inl e)
      with Inr Cons.prems show ?thesis by auto
    next
      case ins: (Inr c1)
      with Inr Cons.prems have "raw_loop ev data c1 = (r, c')" by simp
      from Cons.IH [OF this] obtain rows where
        rows: "raw_asteroid_data (txn c') = raw_asteroid_data (txn c1) @ rows"
          "r = None \<longrightarrow> length rows = length data"
          "processed_asteroid_insights (txn c') = processed_asteroid_insights (txn c1)"
        by blast
      from execute_insert_Inr [OF ins] have t: "txn c1 = add_row RawAsteroidData v (txn c)" by simp
      have "raw_asteroid_data (txn c') = raw_asteroid_data (txn c) @ (v # rows)"
        using rows(1) t by simp
      moreover have "r = None \<longrightarrow> length (v # rows) = length (a # data)"
        using rows(2) by simp
      moreover have "processed_asteroid_insights (txn c') = processed_asteroid_insights (txn c)"
        using rows(3) t by simp
      ultimately show ?thesis by blast
    qed
  qed
qed

lemma store_raw_failure:
  assumes "store_raw_data_sql ev data d = (Inl e, d')"
  shows "d' = d"
proof (cases "db_connects ev")
  case False
  with assms show ?thesis by (simp add: store_raw_data_sql_def)
next
  case True
  obtain r c where l: "raw_loop ev data \<lparr>stored = d, txn = d\<rparr> = (r, c)"
    by (cases "raw_loop ev data \<lparr>stored = d, txn = d\<rparr>")
  from raw_loop_stored [OF l] have "stored c = d" by simp
  with assms True l show ?thesis
    by (cases r) (auto simp: store_raw_data_sql_def rollback_def commit_def)
qed

lemma store_raw_success:
  assumes "store_raw_data_sql ev data d = (Inr u, d')"
  shows "\<exists>rows. length rows = length data
           \<and> raw_asteroid_data d' = raw_asteroid_data d @ rows
           \<and> processed_asteroid_insights d' = processed_asteroid_insights d"
proof -
  from assms have True: "db_connects ev"
    by (auto simp: store_raw_data_sql_def split: if_splits)
  obtain r c where l: "raw_loop ev data \<lparr>stored = d, txn = d\<rparr> = (r, c)"
    by (cases "raw_loop ev data \<lparr>stored = d, txn = d\<rparr>")
  with assms True have r: "r = None" and d': "d' = txn c"
    by (cases r; auto simp: store_raw_data_sql_def rollback_def commit_def)+
  from raw_loop_rows [OF l] r d' show ?thesis by auto
qed

lemma insights_loop_stored: "insights_loop ev data c = (r, c') \<Longrightarrow> stored c' = stored c"
proof (induction data arbitrary: c)
  case Nil
  then show ?case by simp
next
  case (Cons a data)
  then show ?case
    by (auto split: sum.splits dest: execute_insert_Inr)
qed

lemma insights_loop_rows:
  "insights_loop ev data c = (r, c') \<Longrightarrow>
   \<exists>rows. processed_asteroid_insights (txn c') = processed_asteroid_insights (txn c) @ rows
          \<and> (r = None \<longrightarrow> length rows = length data)
          \<and> raw_asteroid_data (txn c') = raw_asteroid_data (txn c)"
proof (induction data arbitrary: c)
  case Nil
  then show ?case by simp
next
  case (Cons a data)
  show ?case
  proof (cases "insight_values ev a")
    case (Inl e)
    with Cons.prems show ?thesis by auto
  next
    case (Inr v)
    show ?thesis
    proof (cases "execute_insert ev ProcessedAsteroidInsights v c")
      case (Inl e)
      with Inr Cons.prems show ?thesis by auto
    next
      case ins: (Inr c1)
      with Inr Cons.prems have "insights_loop ev data c1 = (r, c')" by simp
      from Cons.IH [OF this] obtain rows where
        rows: "processed_asteroid_insights (txn c') = processed_asteroid_insights (txn c1) @ rows"
          "r = None \<longrightarrow> length rows = length data"
          "raw_asteroid_data (txn c') = raw_asteroid_data (txn c1)"
        by blast
      from execute_insert_Inr [OF ins]
      have t: "txn c1 = add_row ProcessedAsteroidInsights v (txn c)" by simp
      have "processed_asteroid_insights (txn c') = processed_asteroid_insights (txn c) @ (v # rows)"
        using rows(1) t by simp
      moreover have "r = None \<longrightarrow> length (v # rows) = length (a # data)"
        using rows(2) by simp
      moreover have "raw_asteroid_data (txn c') = raw_asteroid_data (txn c)"
        using rows(3) t by simp
      ultimately show ?thesis by blast
    qed
  qed
qed

lemma store_insights_failure:
  assumes "store_processed_insights_sql ev data d = (Inl e, d')"
  shows "d' = d"
proof (cases "db_connects ev")
  case False
  with assms show ?thesis by (simp add: store_processed_insights_sql_def)
next
  case True
  obtain r c where l: "insights_loop ev data \<lparr>stored = d, txn = d\<rparr> = (r, c)"
    by (cases "insights_loop ev data \<lparr>stored = d, txn = d\<rparr>")
  from insights_loop_stored [OF l] have "stored c = d" by simp
  with assms True l show ?thesis
    by (cases r) (auto simp: store_processed_insights_sql_def rollback_def commit_def)
qed

lemma store_insights_success:
  assumes "store_processed_insights_sql ev data d = (Inr u, d')"
  shows "\<exists>rows. length rows = length data
           \<and> processed_asteroid_insights d' = processed_asteroid_insights d @ rows
           \<and> raw_asteroid_data d' = raw_asteroid_data d"
proof -
  from assms have True: "db_connects ev"
    by (auto simp: store_processed_insights_sql_def split: if_splits)
  obtain r c where l: "insights_loop ev data \<lparr>stored = d, txn = d\<rparr> = (r, c)"
    by (cases "insights_loop ev data \<lparr>stored = d, txn = d\<rparr>")
  with assms True have r: "r = None" and d': "d' = txn c"
    by (cases r; auto simp: store_processed_insights_sql_def rollback_def commit_def)+
  from insights_loop_rows [OF l] r d' show ?thesis by auto
qed

text \<open>The cycle, stage by stage.\<close>

lemma process_data_blob_failure:
  assumes "fetch_asteroid_data ev (mode_days mode) = Inr data" "data \<noteq> []" "\<not> blob_accepts ev"
  shows "process_data ev mode w = (Inl BlobError, w)"
  using assms by (simp add: process_data_def store_raw_data_blob_def)

lemma process_data_raw_failure:
  assumes "fetch_asteroid_data ev (mode_days mode) = Inr data" "data \<noteq> []" "blob_accepts ev"
    and "fst (store_raw_data_sql ev data (database w)) = Inl e"
  shows "fst (process_data ev mode w) = Inl e \<and> database (snd (process_data ev mode w)) = database w"
proof -
  obtain d' where s: "store_raw_data_sql ev data (database w) = (Inl e, d')"
    using assms(4) by (cases "store_raw_data_sql ev data (database w)") auto
  from store_raw_failure [OF s] have "d' = database w" .
  with s assms(1-3) show ?thesis
    by (simp add: process_data_def store_raw_data_blob_def)
qed

lemma process_data_insights_failure:
  assumes "fetch_asteroid_data ev (mode_days mode) = Inr data" "data \<noteq> []" "blob_accepts ev"
    and "store_raw_data_sql ev data (database w) = (Inr u, d2)"
    and "fst (store_processed_insights_sql ev data d2) = Inl e"
  shows "fst (process_data ev mode w) = Inl e \<and> database (snd (process_data ev mode w)) = d2"
proof -
  obtain d' where s: "store_processed_insights_sql ev data d2 = (Inl e, d')"
    using assms(5) by (cases "store_processed_insights_sql ev data d2") auto
  from store_insights_failure [OF s] have "d' = d2" .
  with s assms(1-4) show ?thesis
    by (simp add: process_data_def store_raw_data_blob_def)
qed

lemma process_data_success:
  assumes "fetch_asteroid_data ev (mode_days mode) = Inr data"
    and "process_data ev mode w = (Inr u, w')" "data \<noteq> []"
  shows "\<exists>raw_rows insight_rows.
           length raw_rows = length data \<and> length insight_rows = length data
           \<and> raw_asteroid_data (database w') = raw_asteroid_data (database w) @ raw_rows
           \<and> processed_asteroid_insights (database w')
               = processed_asteroid_insights (database w) @ insight_rows"
proof -
  from assms have b: "blob_accepts ev"
    by (auto simp: process_data_def store_raw_data_blob_def split: if_splits)
  obtain r1 d2 where s1: "store_raw_data_sql ev data (database w) = (r1, d2)"
    by (cases "store_raw_data_sql ev data (database w)")
  obtain r2 d3 where s2: "store_processed_insights_sql ev data d2 = (r2, d3)"
    by (cases "store_processed_insights_sql ev data d2")
  from assms b s1 have r1: "r1 = Inr ()"
    by (cases r1) (auto simp: process_data_def store_raw_data_blob_def)
  from assms b s1 s2 r1 have r2: "r2 = Inr ()" and w': "database w' = d3"
    by (cases r2; auto simp: process_data_def store_raw_data_blob_def)+
  from store_raw_success [OF s1 [unfolded r1]] obtain raw_rows where
    a: "length raw_rows = length data" "raw_asteroid_data d2 = raw_asteroid_data (database w) @ raw_rows"
       "processed_asteroid_insights d2 = processed_asteroid_insights (database w)"
    by blast
  from store_insights_success [OF s2 [unfolded r2]] obtain insight_rows where
    c: "length insight_rows = length data"
       "processed_asteroid_insights d3 = processed_asteroid_insights d2 @ insight_rows"
       "raw_asteroid_data d3 = raw_asteroid_data d2"
    by blast
  from a c w' show ?thesis by auto
qed

section \<open>Runs of the stores and of the cycle on the worked inputs\<close>

lemmas store_defs = store_raw_data_sql_def store_processed_insights_sql_def raw_values_def
  insight_values_def execute_insert_def commit_def rollback_def sample_env_def empty_db_def
  rows_with_id_def no_constraints_def orbit_columns_def eros_def calculate_insights_def
  size_step_def orbit_step_def eccentricity_step_def inclination_step_def velocity_step_def
  distance_step_def days_step_def threat_step_def has_close_approach_def first_approach_def
  threat_level_def recommended_action_def processing_metadata_def

lemma resubmit_raw_two_rows: "length (rows_with_id (JStr ''2000433'')
       (raw_asteroid_data (snd (store_raw_data_sql
          (sample_env (sample_feed []) True no_constraints ''2024-01-16T12:00:00'') [eros]
          (snd (store_raw_data_sql
             (sample_env (sample_feed []) True no_constraints ''2024-01-15T12:00:00'') [eros]
             empty_db)))))) = 2"
  by (simp add: store_defs)

lemma resubmit_insights_two_rows: "length (rows_with_id (JStr ''2000433'')
       (processed_asteroid_insights (snd (store_processed_insights_sql
          (sample_env (sample_feed []) True no_constraints ''2024-01-16T12:00:00'') [eros]
          (snd (store_processed_insights_sql
             (sample_env (sample_feed []) True no_constraints ''2024-01-15T12:00:00'') [eros]
             empty_db)))))) = 2"
  by (simp add: store_defs)

lemma resubmit_raw_rejected: "store_raw_data_sql
          (sample_env (sample_feed []) True id_primary_key ''2024-01-16T12:00:00'') [eros]
          (snd (store_raw_data_sql
             (sample_env (sample_feed []) True id_primary_key ''2024-01-15T12:00:00'') [eros]
             empty_db))
     = (Inl DatabaseError, snd (store_raw_data_sql
             (sample_env (sample_feed []) True id_primary_key ''2024-01-15T12:00:00'') [eros]
             empty_db))"
  by (simp add: store_defs)

lemma resubmit_raw_keeps_first: "map last (rows_with_id (JStr ''2000433'')
       (raw_asteroid_data (snd (store_raw_data_sql
          (sample_env (sample_feed []) True id_primary_key ''2024-01-16T12:00:00'') [eros]
          (snd (store_raw_data_sql
             (sample_env (sample_feed []) True id_primary_key ''2024-01-15T12:00:00'') [eros]
             empty_db)))))) = [Stamp ''2024-01-15T12:00:00'']"
  by (simp add: store_defs)

lemmas cycle_defs = process_data_def mode_days_def fetch_asteroid_data_def fetch_attempt_def
  get_near_earth_objects_def sample_feed_def store_raw_data_blob_def enrich_asteroid_data_def
  enrich_risk_def enrich_orbital_def calculate_risk_score_def risk_score_body_def
  hazard_level_def digits_float_def digit_val_def empty_world_def nameless_id_def
  no_diameter_def eros_as_fed_def validate_asteroid_data_def required_fields_def

lemma cycle_blob_failure: "process_data (sample_env (sample_feed [eros, nameless_id]) False no_constraints ''2024-01-15T12:00:00'')
     ''auto'' empty_world = (Inl BlobError, empty_world)"
  by (simp add: store_defs cycle_defs)

lemma cycle_raw_rows: "length (raw_asteroid_data (database (snd (process_data
      (sample_env (sample_feed [eros, nameless_id]) True no_constraints ''2024-01-15T12:00:00'')
     ''auto'' empty_world)))) = 2"
  by (simp add: store_defs cycle_defs)

lemma cycle_insight_rows: "length (processed_asteroid_insights (database (snd (process_data
      (sample_env (sample_feed [eros, nameless_id]) True no_constraints ''2024-01-15T12:00:00'')
     ''auto'' empty_world)))) = 2"
  by (simp add: store_defs cycle_defs)

lemma cycle_enrichment_failure: "process_data (sample_env (sample_feed [eros, no_diameter]) True no_constraints ''2024-01-15T12:00:00'')
     ''auto'' empty_world = (Inl RetryError, empty_world)"
  by (simp add: store_defs cycle_defs)

lemma cycle_null_key_rejected: "process_data (sample_env (sample_feed [eros, nameless_id]) True id_primary_key ''2024-01-15T12:00:00'')
     ''auto'' empty_world = (Inl DatabaseError,
        empty_world\<lparr>blobs := [(''asteroid_data_20240115_120000.json'',
           JList (projr (fetch_asteroid_data (sample_env (sample_feed [eros, nameless_id]) True id_primary_key ''2024-01-15T12:00:00'') 7)))]\<rparr>)"
  by (simp add: store_defs cycle_defs)

lemma validate_nameless_id: "validate_asteroid_data nameless_id = Inr (False, [MissingRequiredField ''id''])"
  by (simp add: cycle_defs)

lemma cycle_feed_strings_fail: "fst (process_data (sample_env (sample_feed [eros_as_fed]) True no_constraints ''2024-01-15T12:00:00'')
     ''auto'' empty_world) = Inl TypeError"
  by (simp add: store_defs cycle_defs)

lemma cycle_feed_strings_tables: "length (raw_asteroid_data (database (snd (process_data (sample_env (sample_feed [eros_as_fed]) True no_constraints ''2024-01-15T12:00:00'')
     ''auto'' empty_world)))) = 1 \<and> processed_asteroid_insights (database (snd (process_data (sample_env (sample_feed [eros_as_fed]) True no_constraints ''2024-01-15T12:00:00'')
     ''auto'' empty_world))) = []"
  by (simp add: store_defs cycle_defs)

section \<open>Resubmission, rollback and the stages of the cycle\<close>

lemma raw_never_updates:
  "\<exists>rows. raw_asteroid_data (snd (store_raw_data_sql ev data d)) = raw_asteroid_data d @ rows"
proof (cases "db_connects ev")
  case False
  then show ?thesis by (simp add: store_raw_data_sql_def)
next
  case True
  obtain r c where l: "raw_loop ev data \<lparr>stored = d, txn = d\<rparr> = (r, c)"
    by (cases "raw_loop ev data \<lparr>stored = d, txn = d\<rparr>")
  from raw_loop_rows [OF l] obtain rows where
    rows: "raw_asteroid_data (txn c) = raw_asteroid_data d @ rows" by auto
  from raw_loop_stored [OF l] have s: "stored c = d" by simp
  show ?thesis
  proof (cases r)
    case None
    with True l rows show ?thesis by (simp add: store_raw_data_sql_def commit_def)
  next
    case (Some e)
    with True l s show ?thesis by (simp add: store_raw_data_sql_def rollback_def)
  qed
qed

text \<open>
  C1. Both stores send a plain \<open>INSERT\<close>, so a second submission of a record is not an
  upsert. Submitting \<open>eros\<close> twice to tables without constraints leaves two rows with
  its id in the raw table and two in the insights table. With the id as primary key the
  second call raises and the table keeps the single row of the first submission, with
  the first submission's time stamp. In no case is an existing row updated.
\<close>

theorem resubmission_inserts_again:
  "length (rows_with_id (JStr ''2000433'')
       (raw_asteroid_data (snd (store_raw_data_sql
          (sample_env (sample_feed []) True no_constraints ''2024-01-16T12:00:00'') [eros]
          (snd (store_raw_data_sql
             (sample_env (sample_feed []) True no_constraints ''2024-01-15T12:00:00'') [eros]
             empty_db)))))) = 2
   \<and> length (rows_with_id (JStr ''2000433'')
       (processed_asteroid_insights (snd (store_processed_insights_sql
          (sample_env (sample_feed []) True no_constraints ''2024-01-16T12:00:00'') [eros]
          (snd (store_processed_insights_sql
             (sample_env (sample_feed []) True no_constraints ''2024-01-15T12:00:00'') [eros]
             empty_db)))))) = 2
   \<and> store_raw_data_sql
          (sample_env (sample_feed []) True id_primary_key ''2024-01-16T12:00:00'') [eros]
          (snd (store_raw_data_sql
             (sample_env (sample_feed []) True id_primary_key ''2024-01-15T12:00:00'') [eros]
             empty_db))
     = (Inl DatabaseError, snd (store_raw_data_sql
             (sample_env (sample_feed []) True id_primary_key ''2024-01-15T12:00:00'') [eros]
             empty_db))
   \<and> map last (rows_with_id (JStr ''2000433'')
       (raw_asteroid_data (snd (store_raw_data_sql
          (sample_env (sample_feed []) True id_primary_key ''2024-01-16T12:00:00'') [eros]
          (snd (store_raw_data_sql
             (sample_env (sample_feed []) True id_primary_key ''2024-01-15T12:00:00'') [eros]
             empty_db)))))) = [Stamp ''2024-01-15T12:00:00'']"
  by (intro conjI resubmit_raw_two_rows resubmit_insights_two_rows resubmit_raw_rejected resubmit_raw_keeps_first)

text \<open>
  C9. Each call of \<open>store_raw_data_sql\<close> and of \<open>store_processed_insights_sql\<close> is all
  or nothing: a call that raises leaves the database as it was before the call, a call
  that returns has added one row per record. The exception reaches the caller of
  \<open>process_data\<close>, which does not go on to the next stage: when the raw store raises,
  the database is unchanged, and when the insights store raises, the database is as the
  raw store left it.
\<close>

theorem stores_all_or_nothing:
  "(fst (store_raw_data_sql ev data d) = Inl e \<longrightarrow> snd (store_raw_data_sql ev data d) = d)
   \<and> (fst (store_raw_data_sql ev data d) = Inr () \<longrightarrow>
        (\<exists>rows. length rows = length data
           \<and> raw_asteroid_data (snd (store_raw_data_sql ev data d)) = raw_asteroid_data d @ rows))
   \<and> (fst (store_processed_insights_sql ev data d) = Inl e \<longrightarrow>
        snd (store_processed_insights_sql ev data d) = d)
   \<and> (fst (store_processed_insights_sql ev data d) = Inr () \<longrightarrow>
        (\<exists>rows. length rows = length data
           \<and> processed_asteroid_insights (snd (store_processed_insights_sql ev data d))
               = processed_asteroid_insights d @ rows))
   \<and> (fetch_asteroid_data ev (mode_days mode) = Inr data \<and> data \<noteq> [] \<and> blob_accepts ev
        \<and> fst (store_raw_data_sql ev data (database w)) = Inl e \<longrightarrow>
        fst (process_data ev mode w) = Inl e
        \<and> database (snd (process_data ev mode w)) = database w)
   \<and> (fetch_asteroid_data ev (mode_days mode) = Inr data \<and> data \<noteq> [] \<and> blob_accepts ev
        \<and> fst (store_raw_data_sql ev data (database w)) = Inr ()
        \<and> fst (store_processed_insights_sql ev data
                  (snd (store_raw_data_sql ev data (database w)))) = Inl e \<longrightarrow>
        fst (process_data ev mode w) = Inl e
        \<and> database (snd (process_data ev mode w)) = snd (store_raw_data_sql ev data (database w)))"
proof (intro conjI impI)
  assume "fst (store_raw_data_sql ev data d) = Inl e"
  then have "store_raw_data_sql ev data d = (Inl e, snd (store_raw_data_sql ev data d))"
    by (metis prod.collapse)
  from store_raw_failure [OF this] show "snd (store_raw_data_sql ev data d) = d" .
next
  assume "fst (store_raw_data_sql ev data d) = Inr ()"
  then have "store_raw_data_sql ev data d = (Inr (), snd (store_raw_data_sql ev data d))"
    by (metis prod.collapse)
  from store_raw_success [OF this]
  show "\<exists>rows. length rows = length data
           \<and> raw_asteroid_data (snd (store_raw_data_sql ev data d)) = raw_asteroid_data d @ rows"
    by blast
next
  assume "fst (store_processed_insights_sql ev data d) = Inl e"
  then have "store_processed_insights_sql ev data d
               = (Inl e, snd (store_processed_insights_sql ev data d))"
    by (metis prod.collapse)
  from store_insights_failure [OF this] show "snd (store_processed_insights_sql ev data d) = d" .
next
  assume "fst (store_processed_insights_sql ev data d) = Inr ()"
  then have "store_processed_insights_sql ev data d
               = (Inr (), snd (store_processed_insights_sql ev data d))"
    by (metis prod.collapse)
  from store_insights_success [OF this]
  show "\<exists>rows. length rows = length data
           \<and> processed_asteroid_insights (snd (store_processed_insights_sql ev data d))
               = processed_asteroid_insights d @ rows"
    by blast
next
  assume a: "fetch_asteroid_data ev (mode_days mode) = Inr data \<and> data \<noteq> [] \<and> blob_accepts ev
        \<and> fst (store_raw_data_sql ev data (database w)) = Inl e"
  from process_data_raw_failure [of ev mode data w e] a
  show "fst (process_data ev mode w) = Inl e" "database (snd (process_data ev mode w)) = database w"
    by blast+
next
  assume a: "fetch_asteroid_data ev (mode_days mode) = Inr data \<and> data \<noteq> [] \<and> blob_accepts ev
        \<and> fst (store_raw_data_sql ev data (database w)) = Inr ()
        \<and> fst (store_processed_insights_sql ev data
                  (snd (store_raw_data_sql ev data (database w)))) = Inl e"
  then have s: "store_raw_data_sql ev data (database w)
                  = (Inr (), snd (store_raw_data_sql ev data (database w)))"
    by (metis prod.collapse)
  from process_data_insights_failure [OF _ _ _ s, of mode e] a
  show "fst (process_data ev mode w) = Inl e"
    "database (snd (process_data ev mode w)) = snd (store_raw_data_sql ev data (database w))"
    by blast+
qed

theorem stores_all_or_nothing_witness:
  "store_raw_data_sql (sample_env (sample_feed []) True id_primary_key ''2024-01-15T12:00:00'')
       [eros, eros] empty_db = (Inl DatabaseError, empty_db)
   \<and> store_processed_insights_sql
       (sample_env (sample_feed []) True id_primary_key ''2024-01-15T12:00:00'')
       [eros, eros] empty_db = (Inl DatabaseError, empty_db)
   \<and> length (raw_asteroid_data (snd (store_raw_data_sql
         (sample_env (sample_feed []) True no_constraints ''2024-01-15T12:00:00'')
         [eros, eros] empty_db))) = 2
   \<and> length (processed_asteroid_insights (snd (store_processed_insights_sql
         (sample_env (sample_feed []) True no_constraints ''2024-01-15T12:00:00'')
         [eros, eros] empty_db))) = 2
   \<and> fst (process_data
         (sample_env (sample_feed [eros, eros]) True id_primary_key ''2024-01-15T12:00:00'')
         ''auto'' empty_world) = Inl DatabaseError
   \<and> database (snd (process_data
         (sample_env (sample_feed [eros, eros]) True id_primary_key ''2024-01-15T12:00:00'')
         ''auto'' empty_world)) = empty_db
   \<and> fst (process_data
         (sample_env (sample_feed [eros_as_fed]) True no_constraints ''2024-01-15T12:00:00'')
         ''auto'' empty_world) = Inl TypeError
   \<and> length (raw_asteroid_data (database (snd (process_data
         (sample_env (sample_feed [eros_as_fed]) True no_constraints ''2024-01-15T12:00:00'')
         ''auto'' empty_world)))) = 1
   \<and> processed_asteroid_insights (database (snd (process_data
         (sample_env (sample_feed [eros_as_fed]) True no_constraints ''2024-01-15T12:00:00'')
         ''auto'' empty_world))) = []"
proof -
  let ?k = "sample_env (sample_feed []) True id_primary_key ''2024-01-15T12:00:00''"
  let ?n = "sample_env (sample_feed []) True no_constraints ''2024-01-15T12:00:00''"
  let ?pk = "sample_env (sample_feed [eros, eros]) True id_primary_key ''2024-01-15T12:00:00''"
  let ?pf = "sample_env (sample_feed [eros_as_fed]) True no_constraints ''2024-01-15T12:00:00''"
  have h1: "fst (store_raw_data_sql ?k [eros, eros] empty_db) = Inl DatabaseError"
    by (simp add: store_defs)
  have h2: "fst (store_processed_insights_sql ?k [eros, eros] empty_db) = Inl DatabaseError"
    by (simp add: store_defs)
  have h3: "fst (store_raw_data_sql ?n [eros, eros] empty_db) = Inr ()"
    by (simp add: store_defs)
  have h4: "fst (store_processed_insights_sql ?n [eros, eros] empty_db) = Inr ()"
    by (simp add: store_defs)
  have h5: "\<exists>data. fetch_asteroid_data ?pk (mode_days ''auto'') = Inr data \<and> data \<noteq> []
              \<and> blob_accepts ?pk
              \<and> fst (store_raw_data_sql ?pk data (database empty_world)) = Inl DatabaseError"
    by (simp add: store_defs cycle_defs)
  have h6: "\<exists>data. fetch_asteroid_data ?pf (mode_days ''auto'') = Inr data \<and> data \<noteq> []
              \<and> blob_accepts ?pf
              \<and> fst (store_raw_data_sql ?pf data (database empty_world)) = Inr ()
              \<and> fst (store_processed_insights_sql ?pf data
                        (snd (store_raw_data_sql ?pf data (database empty_world)))) = Inl TypeError
              \<and> length (raw_asteroid_data (snd (store_raw_data_sql ?pf data (database empty_world)))) = 1
              \<and> processed_asteroid_insights (snd (store_raw_data_sql ?pf data (database empty_world))) = []"
    by (simp add: store_defs cycle_defs)
  have c1: "store_raw_data_sql ?k [eros, eros] empty_db = (Inl DatabaseError, empty_db)"
    using stores_all_or_nothing [where ev = ?k and data = "[eros, eros]" and d = empty_db
        and e = DatabaseError] h1
    by (metis prod.collapse)
  have c2: "store_processed_insights_sql ?k [eros, eros] empty_db = (Inl DatabaseError, empty_db)"
    using stores_all_or_nothing [where ev = ?k and data = "[eros, eros]" and d = empty_db
        and e = DatabaseError] h2
    by (metis prod.collapse)
  have c3: "length (raw_asteroid_data (snd (store_raw_data_sql ?n [eros, eros] empty_db))) = 2"
    using stores_all_or_nothing [where ev = ?n and data = "[eros, eros]" and d = empty_db] h3
    by (auto simp: empty_db_def)
  have c4: "length (processed_asteroid_insights
              (snd (store_processed_insights_sql ?n [eros, eros] empty_db))) = 2"
    using stores_all_or_nothing [where ev = ?n and data = "[eros, eros]" and d = empty_db] h4
    by (auto simp: empty_db_def)
  from h5 obtain data where d5:
    "fetch_asteroid_data ?pk (mode_days ''auto'') = Inr data \<and> data \<noteq> [] \<and> blob_accepts ?pk
       \<and> fst (store_raw_data_sql ?pk data (database empty_world)) = Inl DatabaseError"
    by blast
  have c5: "fst (process_data ?pk ''auto'' empty_world) = Inl DatabaseError
            \<and> database (snd (process_data ?pk ''auto'' empty_world)) = empty_db"
    using stores_all_or_nothing [where ev = ?pk and data = data and e = DatabaseError
        and mode = "''auto''" and w = empty_world] d5
    by (simp add: empty_world_def)
  from h6 obtain data' where d6:
    "fetch_asteroid_data ?pf (mode_days ''auto'') = Inr data' \<and> data' \<noteq> [] \<and> blob_accepts ?pf
       \<and> fst (store_raw_data_sql ?pf data' (database empty_world)) = Inr ()
       \<and> fst (store_processed_insights_sql ?pf data'
                 (snd (store_raw_data_sql ?pf data' (database empty_world)))) = Inl TypeError"
    and r6: "length (raw_asteroid_data (snd (store_raw_data_sql ?pf data' (database empty_world)))) = 1"
      "processed_asteroid_insights (snd (store_raw_data_sql ?pf data' (database empty_world))) = []"
    by blast
  have c6: "fst (process_data ?pf ''auto'' empty_world) = Inl TypeError
            \<and> database (snd (process_data ?pf ''auto'' empty_world))
                = snd (store_raw_data_sql ?pf data' (database empty_world))"
    using stores_all_or_nothing [where ev = ?pf and data = data' and e = TypeError
        and mode = "''auto''" and w = empty_world] d6
    by blast
  from c1 c2 c3 c4 c5 c6 r6 show ?thesis by simp
qed

text \<open>
  C6, as amended. For every non-empty batch, if the write to the blob container raises,
  \<open>process_data\<close> raises that exception and stops there: the world is unchanged,
  whatever the database would have answered, so neither table is written.
\<close>

theorem archival_failure_stops_cycle:
  assumes "fetch_asteroid_data ev (mode_days mode) = Inr data" "data \<noteq> []" "\<not> blob_accepts ev"
  shows "process_data ev mode w = (Inl BlobError, w)"
  using assms by (simp add: process_data_def store_raw_data_blob_def)

theorem archival_failure_stops_cycle_witness:
  "\<not> blob_accepts (sample_env (sample_feed [eros]) False no_constraints ''2024-01-15T12:00:00'')
   \<and> process_data (sample_env (sample_feed [eros]) False no_constraints ''2024-01-15T12:00:00'')
        ''manual-full'' empty_world = (Inl BlobError, empty_world)"
proof -
  let ?ev = "sample_env (sample_feed [eros]) False no_constraints ''2024-01-15T12:00:00''"
  have "\<exists>data. fetch_asteroid_data ?ev (mode_days ''manual-full'') = Inr data \<and> data \<noteq> []"
    by (simp add: store_defs cycle_defs)
  then obtain data where d: "fetch_asteroid_data ?ev (mode_days ''manual-full'') = Inr data"
    "data \<noteq> []" by blast
  have b: "\<not> blob_accepts ?ev" by (simp add: sample_env_def)
  from archival_failure_stops_cycle [OF d b] b show ?thesis by blast
qed

text \<open>
  C6 as stated fails: with a container that rejects the upload the cycle ends with the
  container's exception and both tables stay empty, although the same database takes the
  two rows per table when the upload succeeds.
\<close>

theorem archival_failure_counterexample:
  "process_data (sample_env (sample_feed [eros, nameless_id]) False no_constraints ''2024-01-15T12:00:00'')
     ''auto'' empty_world = (Inl BlobError, empty_world)
   \<and> length (raw_asteroid_data (database (snd (process_data
        (sample_env (sample_feed [eros, nameless_id]) True no_constraints ''2024-01-15T12:00:00'')
        ''auto'' empty_world)))) = 2
   \<and> length (processed_asteroid_insights (database (snd (process_data
        (sample_env (sample_feed [eros, nameless_id]) True no_constraints ''2024-01-15T12:00:00'')
        ''auto'' empty_world)))) = 2"
  by (intro conjI cycle_blob_failure cycle_raw_rows cycle_insight_rows)

lemma validate_names_missing_field:
  assumes "f \<in> set required_fields" "f \<notin> set (map fst kvs)"
    and "\<forall>g \<in> set required_fields. g \<noteq> f \<longrightarrow> g \<in> set (map fst kvs)"
  shows "validate_asteroid_data (JDict kvs) = Inr (False, [MissingRequiredField f])"
  using assms by (auto simp: validate_asteroid_data_def required_fields_def)

lemma process_data_row_counts:
  assumes "fetch_asteroid_data ev (mode_days mode) = Inr data"
    and "fst (process_data ev mode w) = Inr ()"
  shows "length (raw_asteroid_data (database (snd (process_data ev mode w))))
           = length (raw_asteroid_data (database w)) + length data
         \<and> length (processed_asteroid_insights (database (snd (process_data ev mode w))))
           = length (processed_asteroid_insights (database w)) + length data"
proof (cases "data = []")
  case True
  with assms(1) show ?thesis by (simp add: process_data_def)
next
  case False
  from assms(2) have "process_data ev mode w = (Inr (), snd (process_data ev mode w))"
    by (metis prod.collapse)
  from process_data_success [OF assms(1) this False] show ?thesis by auto
qed

text \<open>
  C7, as amended. \<open>validate_asteroid_data\<close> rejects a record that lacks exactly one of
  \<open>id\<close>, \<open>name\<close> and \<open>estimated_diameter\<close> with a warning that names the field.
  The processing cycle does not call it and drops no record: a cycle that completes
  has added one row per fetched record to each table.
\<close>

theorem validation_outside_cycle:
  "(f \<in> set required_fields \<and> f \<notin> set (map fst kvs)
      \<and> (\<forall>g \<in> set required_fields. g \<noteq> f \<longrightarrow> g \<in> set (map fst kvs))
     \<longrightarrow> validate_asteroid_data (JDict kvs) = Inr (False, [MissingRequiredField f]))
   \<and> (fetch_asteroid_data ev (mode_days mode) = Inr data \<and> fst (process_data ev mode w) = Inr ()
     \<longrightarrow> length (raw_asteroid_data (database (snd (process_data ev mode w))))
           = length (raw_asteroid_data (database w)) + length data
         \<and> length (processed_asteroid_insights (database (snd (process_data ev mode w))))
           = length (processed_asteroid_insights (database w)) + length data)"
  using validate_names_missing_field [of f kvs] process_data_row_counts [of ev mode data w]
  by blast

theorem validation_outside_cycle_witness:
  "validate_asteroid_data nameless_id = Inr (False, [MissingRequiredField ''id''])
   \<and> fst (process_data
        (sample_env (sample_feed [eros, nameless_id]) True no_constraints ''2024-01-15T12:00:00'')
        ''auto'' empty_world) = Inr ()
   \<and> length (raw_asteroid_data (database (snd (process_data
        (sample_env (sample_feed [eros, nameless_id]) True no_constraints ''2024-01-15T12:00:00'')
        ''auto'' empty_world)))) = 2
   \<and> length (processed_asteroid_insights (database (snd (process_data
        (sample_env (sample_feed [eros, nameless_id]) True no_constraints ''2024-01-15T12:00:00'')
        ''auto'' empty_world)))) = 2"
proof -
  let ?ev = "sample_env (sample_feed [eros, nameless_id]) True no_constraints ''2024-01-15T12:00:00''"
  let ?kvs = "[(''name'', JStr ''(2024 AB)''),
            (''estimated_diameter'',
               JDict [(''kilometers'', JDict [(''estimated_diameter_min'', JNum 0.02),
                                              (''estimated_diameter_max'', JNum 0.05)])])]"
  have v: "''id'' \<in> set required_fields \<and> ''id'' \<notin> set (map fst ?kvs)
      \<and> (\<forall>g \<in> set required_fields. g \<noteq> ''id'' \<longrightarrow> g \<in> set (map fst ?kvs))"
    by (simp add: required_fields_def)
  have "\<exists>data. fetch_asteroid_data ?ev (mode_days ''auto'') = Inr data \<and> length data = 2"
    by (simp add: store_defs cycle_defs)
  then obtain data where d: "fetch_asteroid_data ?ev (mode_days ''auto'') = Inr data"
    "length data = 2" by blast
  have p: "fst (process_data ?ev ''auto'' empty_world) = Inr ()"
    by (simp add: store_defs cycle_defs)
  from validation_outside_cycle [of "''id''" ?kvs ?ev "''auto''" data empty_world] v d p
  show ?thesis
    by (simp add: nameless_id_def empty_world_def empty_db_def)
qed

text \<open>
  C7 as stated fails: of a batch of two records, one without \<open>id\<close>, the cycle writes
  two rows per table, not one; and a record without \<open>estimated_diameter\<close> that has an
  approach makes the enrichment raise in each of the three attempts, which ends the
  whole cycle with nothing written.
\<close>

theorem invalid_record_counterexample:
  "validate_asteroid_data nameless_id = Inr (False, [MissingRequiredField ''id''])
   \<and> length (raw_asteroid_data (database (snd (process_data
        (sample_env (sample_feed [eros, nameless_id]) True no_constraints ''2024-01-15T12:00:00'')
        ''auto'' empty_world)))) = 2
   \<and> length (processed_asteroid_insights (database (snd (process_data
        (sample_env (sample_feed [eros, nameless_id]) True no_constraints ''2024-01-15T12:00:00'')
        ''auto'' empty_world)))) = 2
   \<and> process_data
        (sample_env (sample_feed [eros, no_diameter]) True no_constraints ''2024-01-15T12:00:00'')
        ''auto'' empty_world = (Inl RetryError, empty_world)"
  by (intro conjI validate_nameless_id cycle_raw_rows cycle_insight_rows cycle_enrichment_failure)

section \<open>Records without approach data\<close>

lemma gets_dict:
  "gets (JDict kvs) ks = Inr (map (\<lambda>k. case map_of kvs k of Some v \<Rightarrow> v | None \<Rightarrow> JNone) ks)"
  by (induction ks) simp_all

lemma contains_dict: "py_contains k (JDict kvs) = Inr (map_of kvs k \<noteq> None)"
  by (simp add: map_of_eq_None_iff)

lemma size_step_frame:
  "size_step a ins = Inr ins' \<Longrightarrow> k \<noteq> ''size_category'' \<Longrightarrow> map_of ins' k = map_of ins k"
  by (auto simp: size_step_def bnd_Inr_iff map_of_dict_set split: if_splits)

lemma eccentricity_step_frame:
  "eccentricity_step pf od ins = Inr ins' \<Longrightarrow> k \<noteq> ''orbit_type'' \<Longrightarrow> map_of ins' k = map_of ins k"
  by (auto simp: eccentricity_step_def bnd_Inr_iff map_of_dict_set split: if_splits)

lemma inclination_step_frame:
  "inclination_step pf od ins = Inr ins' \<Longrightarrow> k \<noteq> ''inclination_type'' \<Longrightarrow> map_of ins' k = map_of ins k"
  by (auto simp: inclination_step_def bnd_Inr_iff map_of_dict_set split: if_splits)

lemma orbit_step_frame:
  "orbit_step pf a ins = Inr ins' \<Longrightarrow> k \<noteq> ''orbit_type'' \<Longrightarrow> k \<noteq> ''inclination_type'' \<Longrightarrow>
   map_of ins' k = map_of ins k"
  by (auto simp: orbit_step_def bnd_Inr_iff dest!: eccentricity_step_frame inclination_step_frame)

lemma no_approach_steps:
  assumes "has_close_approach a = Inr False"
  shows "velocity_step a ins = Inr ins" "distance_step a ins = Inr ins" "days_step ev a ins = Inr ins"
  using assms by (simp_all add: velocity_step_def distance_step_def days_step_def)

lemma threat_step_default:
  assumes "map_of kvs ''risk_score'' = None"
  shows "threat_step (JDict kvs) ins =
           Inr (dict_set ''recommended_action'' (JStr ''Routine observation'')
                 (dict_set ''threat_level'' (JStr ''LOW'')
                   (dict_set ''is_high_priority'' (JBool False) ins)))"
  using assms by (simp add: threat_step_def threat_level_def recommended_action_def)

text \<open>The insights of a record without approach and without a risk score of its own.\<close>

lemma calculate_insights_no_approach:
  assumes h: "has_close_approach (JDict kvs) = Inr False"
    and r: "map_of kvs ''risk_score'' = None"
    and c: "calculate_insights ev (JDict kvs) = Inr insights"
  shows "\<exists>i. insights = JDict i
           \<and> map_of i ''velocity_category'' = None
           \<and> map_of i ''distance_category'' = None
           \<and> map_of i ''days_to_approach'' = None
           \<and> map_of i ''is_high_priority'' = Some (JBool False)
           \<and> map_of i ''threat_level'' = Some (JStr ''LOW'')"
proof -
  from c obtain i1 i2 where
    s: "size_step (JDict kvs) [] = Inr i1" and
    ob: "orbit_step (parse_float ev) (JDict kvs) i1 = Inr i2" and
    i: "insights = JDict (dict_set ''processing_metadata'' (processing_metadata ev)
          (dict_set ''recommended_action'' (JStr ''Routine observation'')
            (dict_set ''threat_level'' (JStr ''LOW'')
              (dict_set ''is_high_priority'' (JBool False) i2))))"
    by (auto simp: calculate_insights_def bnd_Inr_iff no_approach_steps [OF h]
        threat_step_default [OF r])
  have "map_of i2 k = None" if "k \<noteq> ''size_category''" "k \<noteq> ''orbit_type''"
    "k \<noteq> ''inclination_type''" for k
    using size_step_frame [OF s that(1)] orbit_step_frame [OF ob that(2,3)] by simp
  then show ?thesis
    unfolding i by (simp add: map_of_dict_set)
qed

lemma enrich_no_approach:
  assumes h: "has_close_approach (JDict kvs) = Inr False"
    and e: "enrich_asteroid_data ev (JDict kvs) date = Inr enriched"
  shows "\<exists>e2. enriched = JDict e2
           \<and> (\<forall>k. k \<noteq> ''processed_date'' \<and> k \<noteq> ''data_source'' \<and> k \<noteq> ''orbital_insights''
                  \<longrightarrow> map_of e2 k = map_of kvs k)"
  using e
  by (auto simp: enrich_asteroid_data_def enrich_risk_def enrich_orbital_def h bnd_Inr_iff
      map_of_dict_set Let_def split: if_splits)

lemma has_close_approach_dict:
  "has_close_approach (JDict kvs) =
     Inr (case map_of kvs ''close_approach_data'' of None \<Rightarrow> False | Some c \<Rightarrow> py_truthy c)"
  unfolding has_close_approach_def contains_dict
  by (auto split: option.splits)

text \<open>
  C10, as amended. For every record with no close approach data (the key absent, or an
  empty list) that carries no \<open>risk_score\<close> and no \<open>hazard_level\<close> entry of its own,
  the enrichment adds neither entry, and the row built for the insights table has
  risk score 0.0, hazard level LOW, threat level LOW, the high-priority flag false, and
  no value for the velocity category, the distance category and the days to approach.
  The columns are numbered from 0 in the order of the \<open>INSERT\<close>.
\<close>

theorem no_approach_row:
  assumes a: "map_of kvs ''close_approach_data'' = None
              \<or> map_of kvs ''close_approach_data'' = Some (JList [])"
    and r: "map_of kvs ''risk_score'' = None"
    and z: "map_of kvs ''hazard_level'' = None"
    and e: "enrich_asteroid_data ev (JDict kvs) date = Inr enriched"
    and v: "insight_values ev enriched = Inr row"
  shows "py_contains ''risk_score'' enriched = Inr False
         \<and> py_contains ''hazard_level'' enriched = Inr False
         \<and> length row = 19
         \<and> row ! 2 = Val (JNum 0)
         \<and> row ! 3 = Val (JStr ''LOW'')
         \<and> row ! 7 = Val JNone
         \<and> row ! 8 = Val JNone
         \<and> row ! 9 = Val JNone
         \<and> row ! 10 = Val (JBool False)
         \<and> row ! 11 = Val (JStr ''LOW'')"
proof -
  from a have h: "has_close_approach (JDict kvs) = Inr False"
    by (auto simp: has_close_approach_dict)
  from enrich_no_approach [OF h e] obtain e2 where
    e2: "enriched = JDict e2" and
    same: "\<And>k. k \<noteq> ''processed_date'' \<Longrightarrow> k \<noteq> ''data_source'' \<Longrightarrow> k \<noteq> ''orbital_insights''
             \<Longrightarrow> map_of e2 k = map_of kvs k"
    by blast
  have c2: "map_of e2 ''close_approach_data'' = map_of kvs ''close_approach_data''"
    and r2: "map_of e2 ''risk_score'' = None" and z2: "map_of e2 ''hazard_level'' = None"
    using same r z by simp_all
  from a c2 have h2: "has_close_approach (JDict e2) = Inr False"
    by (auto simp: has_close_approach_dict)
  from v obtain insights where
    ci: "calculate_insights ev (JDict e2) = Inr insights"
    by (auto simp: insight_values_def e2 bnd_Inr_iff)
  from calculate_insights_no_approach [OF h2 r2 ci] obtain i where
    i: "insights = JDict i" "map_of i ''velocity_category'' = None"
       "map_of i ''distance_category'' = None" "map_of i ''days_to_approach'' = None"
       "map_of i ''is_high_priority'' = Some (JBool False)"
       "map_of i ''threat_level'' = Some (JStr ''LOW'')"
    by blast
  from v have row: "row =
     map Val (map (\<lambda>k. case map_of e2 k of Some v \<Rightarrow> v | None \<Rightarrow> JNone) [''id'', ''name'']
              @ [JNum 0, JStr ''LOW'']
              @ map (\<lambda>k. case map_of i k of Some v \<Rightarrow> v | None \<Rightarrow> JNone)
                    [''size_category'', ''orbit_type'', ''inclination_type'',
                     ''velocity_category'', ''distance_category'', ''days_to_approach'']
              @ [JBool False]
              @ map (\<lambda>k. case map_of i k of Some v \<Rightarrow> v | None \<Rightarrow> JNone)
                    [''threat_level'', ''recommended_action''])
     @ [Dumps (case map_of i ''orbital_insights'' of Some v \<Rightarrow> v | None \<Rightarrow> JDict []),
        Dumps (case map_of i ''size_insights'' of Some v \<Rightarrow> v | None \<Rightarrow> JDict []),
        Dumps (case map_of i ''velocity_insights'' of Some v \<Rightarrow> v | None \<Rightarrow> JDict []),
        Dumps (case map_of i ''distance_insights'' of Some v \<Rightarrow> v | None \<Rightarrow> JDict []),
        Dumps (case map_of i ''processing_metadata'' of Some v \<Rightarrow> v | None \<Rightarrow> JDict []),
        Stamp (iso_now ev)]"
    unfolding insight_values_def e2 ci i(1) gets_dict
    by (simp add: r2 z2 i(5))
  have k: "py_contains ''risk_score'' enriched = Inr False"
    "py_contains ''hazard_level'' enriched = Inr False"
    unfolding e2 contains_dict using r2 z2 by simp_all
  show ?thesis
    unfolding row using k i(2-6) by simp
qed

lemmas row_defs = derived_row_def columns_def insight_values_def calculate_insights_def
  size_step_def orbit_step_def eccentricity_step_def inclination_step_def velocity_step_def
  distance_step_def days_step_def threat_step_def has_close_approach_def first_approach_def
  threat_level_def recommended_action_def processing_metadata_def
  enrich_asteroid_data_def enrich_risk_def enrich_orbital_def calculate_orbital_insights_def
  orbital_period_step_def orbital_handler_def sample_env_def digits_float_def digit_val_def

theorem no_approach_row_witness:
  "\<exists>enriched row.
     enrich_asteroid_data (sample_env (sample_feed []) True no_constraints ''2024-01-15T12:00:00'')
         without_approach ''2024-01-15'' = Inr enriched
     \<and> insight_values (sample_env (sample_feed []) True no_constraints ''2024-01-15T12:00:00'')
         enriched = Inr row
     \<and> py_contains ''risk_score'' enriched = Inr False
     \<and> py_contains ''hazard_level'' enriched = Inr False
     \<and> length row = 19
     \<and> row ! 2 = Val (JNum 0)
     \<and> row ! 3 = Val (JStr ''LOW'')
     \<and> row ! 7 = Val JNone
     \<and> row ! 8 = Val JNone
     \<and> row ! 9 = Val JNone
     \<and> row ! 10 = Val (JBool False)
     \<and> row ! 11 = Val (JStr ''LOW'')"
proof -
  let ?ev = "sample_env (sample_feed []) True no_constraints ''2024-01-15T12:00:00''"
  let ?kvs = "[(''id'', JStr ''54016476''),
            (''name'', JStr ''(2020 GE)''),
            (''estimated_diameter'',
               JDict [(''kilometers'', JDict [(''estimated_diameter_min'', JNum 0.02),
                                              (''estimated_diameter_max'', JNum 0.05)])]),
            (''close_approach_data'', JList []),
            (''orbital_data'', JDict [(''eccentricity'', JStr ''309'')])]"
  have "\<exists>enriched. enrich_asteroid_data ?ev (JDict ?kvs) ''2024-01-15'' = Inr enriched
          \<and> (\<exists>row. insight_values ?ev enriched = Inr row)"
    by (simp add: row_defs)
  then obtain enriched row where
    e: "enrich_asteroid_data ?ev (JDict ?kvs) ''2024-01-15'' = Inr enriched" and
    v: "insight_values ?ev enriched = Inr row"
    by blast
  have a: "map_of ?kvs ''close_approach_data'' = None
           \<or> map_of ?kvs ''close_approach_data'' = Some (JList [])" by simp
  have r: "map_of ?kvs ''risk_score'' = None" by simp
  have z: "map_of ?kvs ''hazard_level'' = None" by simp
  from no_approach_row [OF a r z e v] e v show ?thesis
    unfolding without_approach_def by blast
qed

text \<open>
  C10 as stated fails on a record that has no approach but carries a risk score and a
  hazard level: both are passed through to the row, and the threat level follows the
  score.
\<close>

theorem own_score_counterexample:
  "columns [2, 3, 10, 11]
     (derived_row (sample_env (sample_feed []) True no_constraints ''2024-01-15T12:00:00'')
        with_own_score ''2024-01-15'')
   = Inr [Val (JNum 0.9), Val (JStr ''HIGH''), Val (JBool True), Val (JStr ''CRITICAL'')]"
  by (simp add: row_defs with_own_score_def)

section \<open>The inner loop of the formatter\<close>























section \<open>The formatter on a well-formed store\<close>


lemma get_or_present: "map_of kvs k = Some x \<Longrightarrow> get_or kvs k d = x"
  by (simp add: get_or_def)
















end
